theory Spec2Isabelle
  imports Complex_Main
begin

section \<open>Numbers, strings and the JavaScript conventions used by the code\<close>

text \<open>
  A JavaScript number is modelled as an exact rational: sums and products are the
  mathematical ones, and the values \<open>NaN\<close> and \<open>Infinity\<close> are not
  represented. A string that may be missing (\<open>undefined\<close>, \<open>null\<close>) is a
  \<open>string option\<close>; the empty string is falsy, as in JavaScript.
\<close>

type_synonym num = rat

text \<open>
  \<open>parseFloat(x.toFixed(2))\<close>. \<open>Number.prototype.toFixed\<close> takes the sign off,
  picks the integer \<open>n\<close> for which \<open>n / 100\<close> is nearest to the magnitude (the larger
  \<open>n\<close> on a tie), and puts the sign back.
\<close>

definition toFixed2 :: "num \<Rightarrow> num" where
  "toFixed2 x =
     (if x < 0 then - (of_int \<lfloor>(- x) * 100 + 1 / 2\<rfloor> / 100)
      else of_int \<lfloor>x * 100 + 1 / 2\<rfloor> / 100)"

text \<open>
  The spec's rounding, in its own words: round to 2 decimal places, half up. The magnitude
  is rounded to the nearest hundredth with a tie going up, and the sign is kept (the
  convention of decimal arithmetic libraries, where half-up takes a tie away from zero).
\<close>

definition round_half_up_2dp :: "num \<Rightarrow> num" where
  "round_half_up_2dp x = sgn x * (of_int (round (\<bar>x\<bar> * 100)) / 100)"

text \<open>\<open>x || d\<close> on a string that may be missing.\<close>

definition str_or :: "string option \<Rightarrow> string \<Rightarrow> string" where
  "str_or x d = (case x of None \<Rightarrow> d | Some s \<Rightarrow> if s = [] then d else s)"

text \<open>\<open>x || null\<close> on a string that may be missing.\<close>

definition str_or_null :: "string option \<Rightarrow> string option" where
  "str_or_null x = (case x of None \<Rightarrow> None | Some s \<Rightarrow> if s = [] then None else Some s)"

text \<open>\<open>parseFloat(x) || 0\<close> on a number that may be missing.\<close>

definition num_or_0 :: "num option \<Rightarrow> num" where
  "num_or_0 x = (case x of None \<Rightarrow> 0 | Some v \<Rightarrow> v)"

text \<open>
  \<open>xs.find(p).field = v\<close> and \<open>xs[xs.findIndex(p)].field += v\<close>: the first element
  that satisfies \<open>p\<close> is changed in place.
\<close>

fun update_first :: "('a \<Rightarrow> bool) \<Rightarrow> ('a \<Rightarrow> 'a) \<Rightarrow> 'a list \<Rightarrow> 'a list" where
  "update_first p f [] = []"
| "update_first p f (x # xs) = (if p x then f x # xs else x # update_first p f xs)"

section \<open>DatabaseService: products and transactions\<close>

record product =
  prod_id :: string
  prod_name :: string
  prod_price :: num
  prod_taxRate :: num
  prod_stock :: num

record payment =
  pm_type :: string
  pm_amount :: num
  pm_reference :: "string option"
  pm_timestamp :: string

record txn_item =
  item_productId :: string
  item_name :: string
  priceAtSale :: num
  taxRateAtSale :: num
  item_quantity :: num
  item_recognitionMethod :: string
  item_recognitionConfidence :: num

record transaction =
  txn_id :: string
  items :: "txn_item list"
  subtotal :: num
  taxAmount :: num
  discountAmount :: num
  total :: num
  status :: string
  paymentMethods :: "payment list"
  customerId :: "string option"
  employeeId :: "string option"
  storeId :: "string option"
  txn_notes :: string
  createdAt :: string
  completedAt :: "string option"
  voidedAt :: "string option"

record database =
  products :: "string \<rightharpoonup> product"
  transactions :: "string \<rightharpoonup> transaction"

definition getProductById :: "database \<Rightarrow> string \<Rightarrow> product option" where
  "getProductById db k = products db k"

definition saveProduct :: "database \<Rightarrow> product \<Rightarrow> bool \<times> database" where
  "saveProduct db p =
     (if prod_id p = [] then (False, db)
      else (True, db\<lparr>products := (products db)(prod_id p \<mapsto> p)\<rparr>))"

definition getTransactionById :: "database \<Rightarrow> string \<Rightarrow> transaction option" where
  "getTransactionById db k = transactions db k"

definition saveTransaction :: "database \<Rightarrow> transaction \<Rightarrow> bool \<times> database" where
  "saveTransaction db t =
     (if txn_id t = [] then (False, db)
      else (True, db\<lparr>transactions := (transactions db)(txn_id t \<mapsto> t)\<rparr>))"

text \<open>
  \<open>product.stock += d; this.db.saveProduct(product)\<close> on the object that
  \<open>getProductById(k)\<close> returned: the assignment changes the stored object under \<open>k\<close>
  in place, then \<open>saveProduct\<close> stores it under its own id.
\<close>

definition adjust_stock :: "database \<Rightarrow> string \<Rightarrow> num \<Rightarrow> database" where
  "adjust_stock db k d =
     (case getProductById db k of
        None \<Rightarrow> db
      | Some p \<Rightarrow>
          (let p' = p\<lparr>prod_stock := prod_stock p + d\<rparr>;
               db1 = db\<lparr>products := (products db)(k \<mapsto> p')\<rparr>
           in snd (saveProduct db1 p')))"

text \<open>Every product is stored under its own id, as \<open>saveProduct\<close> stores it.\<close>

definition keyed_by_id :: "database \<Rightarrow> bool" where
  "keyed_by_id db = (\<forall>k p. products db k = Some p \<longrightarrow> prod_id p = k)"

section \<open>Transaction\<close>

text \<open>
  The constructor's argument: an object whose properties may be missing. A property that
  is absent (or \<open>undefined\<close>, \<open>null\<close>) is \<open>None\<close>.
\<close>

record txn_data =
  d_id :: "string option"
  d_items :: "txn_item list option"
  d_subtotal :: "num option"
  d_taxAmount :: "num option"
  d_discountAmount :: "num option"
  d_total :: "num option"
  d_status :: "string option"
  d_paymentMethods :: "payment list option"
  d_customerId :: "string option"
  d_employeeId :: "string option"
  d_storeId :: "string option"
  d_notes :: "string option"
  d_createdAt :: "string option"
  d_completedAt :: "string option"
  d_voidedAt :: "string option"

text \<open>
  \<open>new Transaction(data)\<close>. The generated id is \<open>'txn_'\<close> followed by a time stamp and
  random digits (\<open>fresh\<close>); \<open>now\<close> is \<open>new Date().toISOString()\<close>.
\<close>

definition Transaction :: "txn_data \<Rightarrow> string \<Rightarrow> string \<Rightarrow> transaction" where
  "Transaction data fresh now =
     \<lparr>txn_id = str_or (d_id data) (''txn_'' @ fresh),
      items = (case d_items data of None \<Rightarrow> [] | Some xs \<Rightarrow> xs),
      subtotal = num_or_0 (d_subtotal data),
      taxAmount = num_or_0 (d_taxAmount data),
      discountAmount = num_or_0 (d_discountAmount data),
      total = num_or_0 (d_total data),
      status = str_or (d_status data) ''pending'',
      paymentMethods = (case d_paymentMethods data of None \<Rightarrow> [] | Some xs \<Rightarrow> xs),
      customerId = str_or_null (d_customerId data),
      employeeId = str_or_null (d_employeeId data),
      storeId = str_or_null (d_storeId data),
      txn_notes = str_or (d_notes data) [],
      createdAt = str_or (d_createdAt data) now,
      completedAt = str_or_null (d_completedAt data),
      voidedAt = str_or_null (d_voidedAt data)\<rparr>"

text \<open>A plain transaction object read as constructor data: every property is present.\<close>

definition as_data :: "transaction \<Rightarrow> txn_data" where
  "as_data t =
     \<lparr>d_id = Some (txn_id t), d_items = Some (items t), d_subtotal = Some (subtotal t),
      d_taxAmount = Some (taxAmount t), d_discountAmount = Some (discountAmount t),
      d_total = Some (total t), d_status = Some (status t),
      d_paymentMethods = Some (paymentMethods t), d_customerId = customerId t,
      d_employeeId = employeeId t, d_storeId = storeId t, d_notes = Some (txn_notes t),
      d_createdAt = Some (createdAt t), d_completedAt = completedAt t,
      d_voidedAt = voidedAt t\<rparr>"

definition fromObject :: "transaction \<Rightarrow> string \<Rightarrow> string \<Rightarrow> transaction" where
  "fromObject obj fresh now = Transaction (as_data obj) fresh now"

text \<open>\<open>validate()\<close>: the list of errors; the transaction is valid when it is empty.\<close>

definition validate :: "transaction \<Rightarrow> string list" where
  "validate t =
     (if items t = [] then [''Transaction must have at least one item''] else []) @
     (if subtotal t < 0 then [''Subtotal cannot be negative''] else []) @
     (if taxAmount t < 0 then [''Tax amount cannot be negative''] else []) @
     (if discountAmount t < 0 then [''Discount amount cannot be negative''] else []) @
     (if str_or_null (employeeId t) = None then [''Employee ID is required''] else []) @
     (if str_or_null (storeId t) = None then [''Store ID is required''] else [])"

text \<open>\<open>errors.join(', ')\<close>\<close>

fun join_comma :: "string list \<Rightarrow> string" where
  "join_comma [] = []"
| "join_comma [e] = e"
| "join_comma (e # es) = e @ '', '' @ join_comma es"

definition calculateTotals_txn :: "transaction \<Rightarrow> transaction" where
  "calculateTotals_txn t =
     (let sub = foldl (\<lambda>sum item. sum + priceAtSale item * item_quantity item) 0 (items t);
          tax = foldl (\<lambda>sum item. sum +
                  (if taxRateAtSale item \<noteq> 0
                   then priceAtSale item * item_quantity item * (taxRateAtSale item / 100)
                   else 0))
                0 (items t);
          tot = sub + tax - discountAmount t
      in t\<lparr>subtotal := toFixed2 sub, taxAmount := toFixed2 tax, total := toFixed2 tot\<rparr>)"

text \<open>The argument of \<open>addPaymentMethod\<close>: a payment object as the caller wrote it.\<close>

record payment_input =
  in_type :: "string option"
  in_amount :: "num option"
  in_reference :: "string option"
  in_timestamp :: "string option"

definition addPaymentMethod ::
  "payment_input \<Rightarrow> string \<Rightarrow> transaction \<Rightarrow> bool \<times> transaction" where
  "addPaymentMethod m now t =
     (if str_or_null (in_type m) = None \<or> num_or_0 (in_amount m) = 0 then (False, t)
      else (True,
            t\<lparr>paymentMethods := paymentMethods t @
                 [\<lparr>pm_type = str_or (in_type m) [], pm_amount = num_or_0 (in_amount m),
                   pm_reference = str_or_null (in_reference m),
                   pm_timestamp = str_or (in_timestamp m) now\<rparr>]\<rparr>))"

definition totalPaid :: "transaction \<Rightarrow> num" where
  "totalPaid t = foldl (\<lambda>sum m. sum + pm_amount m) 0 (paymentMethods t)"

definition complete :: "string \<Rightarrow> transaction \<Rightarrow> bool \<times> transaction" where
  "complete now t =
     (if status t \<noteq> ''pending'' then (False, t)
      else if totalPaid t < total t then (False, t)
      else (True, t\<lparr>status := ''completed'', completedAt := Some now\<rparr>))"

definition void :: "string \<Rightarrow> string \<Rightarrow> transaction \<Rightarrow> bool \<times> transaction" where
  "void reason now t =
     (if status t = ''voided'' then (False, t)
      else (True,
            t\<lparr>status := ''voided'', voidedAt := Some now,
              txn_notes := txn_notes t @
                (if reason \<noteq> [] then CHR 0x0A # ''Voided: '' @ reason
                 else CHR 0x0A # ''Voided'')\<rparr>))"

section \<open>APIService: the transaction handlers\<close>

record 'd response =
  resp_success :: bool
  resp_status :: nat
  resp_message :: "string option"
  resp_data :: "'d option"

definition failure :: "nat \<Rightarrow> string \<Rightarrow> 'd response" where
  "failure code msg =
     \<lparr>resp_success = False, resp_status = code, resp_message = Some msg, resp_data = None\<rparr>"

definition succeeded :: "nat \<Rightarrow> 'd \<Rightarrow> 'd response" where
  "succeeded code d =
     \<lparr>resp_success = True, resp_status = code, resp_message = None, resp_data = Some d\<rparr>"

text \<open>\<open>{...existingTransaction, ...data}\<close>: a property present in \<open>data\<close> wins.\<close>

definition keep :: "'a option \<Rightarrow> 'a option \<Rightarrow> 'a option" where
  "keep new old = (case new of None \<Rightarrow> old | Some v \<Rightarrow> Some v)"

definition spread :: "txn_data \<Rightarrow> txn_data \<Rightarrow> txn_data" where
  "spread existing data =
     \<lparr>d_id = keep (d_id data) (d_id existing),
      d_items = keep (d_items data) (d_items existing),
      d_subtotal = keep (d_subtotal data) (d_subtotal existing),
      d_taxAmount = keep (d_taxAmount data) (d_taxAmount existing),
      d_discountAmount = keep (d_discountAmount data) (d_discountAmount existing),
      d_total = keep (d_total data) (d_total existing),
      d_status = keep (d_status data) (d_status existing),
      d_paymentMethods = keep (d_paymentMethods data) (d_paymentMethods existing),
      d_customerId = keep (d_customerId data) (d_customerId existing),
      d_employeeId = keep (d_employeeId data) (d_employeeId existing),
      d_storeId = keep (d_storeId data) (d_storeId existing),
      d_notes = keep (d_notes data) (d_notes existing),
      d_createdAt = keep (d_createdAt data) (d_createdAt existing),
      d_completedAt = keep (d_completedAt data) (d_completedAt existing),
      d_voidedAt = keep (d_voidedAt data) (d_voidedAt existing)\<rparr>"

definition updateTransaction ::
  "database \<Rightarrow> string \<Rightarrow> txn_data \<Rightarrow> string \<Rightarrow> string \<Rightarrow> transaction response \<times> database" where
  "updateTransaction db k data fresh now =
     (case getTransactionById db k of
        None \<Rightarrow> (failure 404 ''Transaction not found'', db)
      | Some existing \<Rightarrow>
          if status existing = ''completed'' \<or> status existing = ''voided''
          then (failure 400 ''Cannot update completed or voided transaction'', db)
          else
            (let t = Transaction ((spread (as_data existing) data)\<lparr>d_id := Some (txn_id existing)\<rparr>)
                       fresh now
             in if validate t \<noteq> [] then (failure 400 (join_comma (validate t)), db)
                else
                  (case saveTransaction db t of
                     (False, _) \<Rightarrow> (failure 500 ''Failed to save transaction'', db)
                   | (True, db') \<Rightarrow> (succeeded 200 t, db'))))"

text \<open>
  \<open>completeTransaction\<close>. The \<open>Transaction\<close> built from the stored object shares its
  \<open>paymentMethods\<close> array with it, so the payments pushed by \<open>addPaymentMethod\<close> are
  in the stored object as well, whether or not the completion then succeeds.
\<close>

definition completeTransaction ::
  "database \<Rightarrow> string \<Rightarrow> payment_input list \<Rightarrow> string \<Rightarrow> string \<Rightarrow>
     transaction response \<times> database" where
  "completeTransaction db k pms fresh now =
     (case getTransactionById db k of
        None \<Rightarrow> (failure 404 ''Transaction not found'', db)
      | Some existing \<Rightarrow>
          if status existing = ''completed''
          then (failure 400 ''Transaction is already completed'', db)
          else if status existing = ''voided''
          then (failure 400 ''Cannot complete voided transaction'', db)
          else if pms = [] then (failure 400 ''Payment methods are required'', db)
          else
            (let t1 = foldl (\<lambda>t m. snd (addPaymentMethod m now t))
                        (fromObject existing fresh now) pms;
                 db1 = db\<lparr>transactions :=
                          (transactions db)(k \<mapsto> existing\<lparr>paymentMethods := paymentMethods t1\<rparr>)\<rparr>
             in (case complete now t1 of
                   (False, _) \<Rightarrow> (failure 400 ''Failed to complete transaction'', db1)
                 | (True, t2) \<Rightarrow>
                     (let db2 = foldl (\<lambda>d item. adjust_stock d (item_productId item)
                                                  (- item_quantity item)) db1 (items t2)
                      in (case saveTransaction db2 t2 of
                            (False, _) \<Rightarrow> (failure 500 ''Failed to save transaction'', db2)
                          | (True, db3) \<Rightarrow> (succeeded 200 t2, db3))))))"

definition voidTransaction ::
  "database \<Rightarrow> string \<Rightarrow> string option \<Rightarrow> string \<Rightarrow> string \<Rightarrow>
     transaction response \<times> database" where
  "voidTransaction db k reason fresh now =
     (case getTransactionById db k of
        None \<Rightarrow> (failure 404 ''Transaction not found'', db)
      | Some existing \<Rightarrow>
          if status existing = ''voided''
          then (failure 400 ''Transaction is already voided'', db)
          else
            (case void (str_or reason []) now (fromObject existing fresh now) of
               (False, _) \<Rightarrow> (failure 400 ''Failed to void transaction'', db)
             | (True, t1) \<Rightarrow>
                 (let db1 = (if status existing = ''completed''
                             then foldl (\<lambda>d item. adjust_stock d (item_productId item)
                                                     (item_quantity item)) db (items t1)
                             else db)
                  in (case saveTransaction db1 t1 of
                        (False, _) \<Rightarrow> (failure 500 ''Failed to save transaction'', db1)
                      | (True, db2) \<Rightarrow> (succeeded 200 t1, db2)))))"

section \<open>CartService\<close>

record cart_item =
  productId :: string
  name :: string
  price :: num
  taxRate :: num
  quantity :: num
  recognitionMethod :: string
  recognitionConfidence :: num

record cart =
  cart_items :: "cart_item list"
  cart_subtotal :: num
  cart_taxAmount :: num
  cart_discountAmount :: num
  cart_total :: num
  cart_customerId :: "string option"
  cart_notes :: string

record result =
  success :: bool
  message :: string
  res_item :: "cart_item option"
  res_discountAmount :: "num option"
  res_total :: "num option"
  res_transaction :: "transaction option"
  amountDue :: "num option"
  change :: "num option"

definition plain_result :: "bool \<Rightarrow> string \<Rightarrow> result" where
  "plain_result ok msg =
     \<lparr>success = ok, message = msg, res_item = None, res_discountAmount = None,
      res_total = None, res_transaction = None, amountDue = None, change = None\<rparr>"

text \<open>The constructor's state.\<close>

definition new_cart :: cart where
  "new_cart =
     \<lparr>cart_items = [], cart_subtotal = 0, cart_taxAmount = 0, cart_discountAmount = 0,
      cart_total = 0, cart_customerId = None, cart_notes = []\<rparr>"

definition calculateTotals :: "cart \<Rightarrow> cart" where
  "calculateTotals c =
     (let sub = foldl (\<lambda>sum item. sum + price item * quantity item) 0 (cart_items c);
          tax = foldl (\<lambda>sum item. sum +
                  (if taxRate item \<noteq> 0
                   then price item * quantity item * (taxRate item / 100) else 0))
                0 (cart_items c);
          tot = sub + tax - cart_discountAmount c
      in c\<lparr>cart_subtotal := toFixed2 sub, cart_taxAmount := toFixed2 tax,
            cart_total := toFixed2 tot\<rparr>)"

definition addItem ::
  "database \<Rightarrow> string \<Rightarrow> num \<Rightarrow> string \<Rightarrow> num \<Rightarrow> cart \<Rightarrow> result \<times> cart" where
  "addItem db pid qty method confidence c =
     (case getProductById db pid of
        None \<Rightarrow> (plain_result False ''Product not found'', c)
      | Some p \<Rightarrow>
          if qty \<le> 0 then (plain_result False ''Quantity must be greater than zero'', c)
          else if prod_stock p < qty then (plain_result False ''Insufficient stock'', c)
          else
            (let its =
                   (if find (\<lambda>i. productId i = pid) (cart_items c) \<noteq> None
                    then update_first (\<lambda>i. productId i = pid)
                           (\<lambda>i. i\<lparr>quantity := quantity i + qty\<rparr>) (cart_items c)
                    else cart_items c @
                           [\<lparr>productId = prod_id p, name = prod_name p, price = prod_price p,
                             taxRate = prod_taxRate p, quantity = qty,
                             recognitionMethod = method,
                             recognitionConfidence = confidence\<rparr>]);
                 c' = calculateTotals (c\<lparr>cart_items := its\<rparr>)
             in ((plain_result True ''Item added to cart'')
                   \<lparr>res_item := find (\<lambda>i. productId i = pid) (cart_items c')\<rparr>, c')))"

definition removeItem :: "string \<Rightarrow> cart \<Rightarrow> result \<times> cart" where
  "removeItem pid c =
     (let its = filter (\<lambda>i. productId i \<noteq> pid) (cart_items c)
      in if length its = length (cart_items c)
         then (plain_result False ''Item not found in cart'', c\<lparr>cart_items := its\<rparr>)
         else (plain_result True ''Item removed from cart'',
               calculateTotals (c\<lparr>cart_items := its\<rparr>)))"

definition updateItemQuantity :: "database \<Rightarrow> string \<Rightarrow> num \<Rightarrow> cart \<Rightarrow> result \<times> cart" where
  "updateItemQuantity db pid qty c =
     (if qty \<le> 0 then removeItem pid c
      else
        (case find (\<lambda>i. productId i = pid) (cart_items c) of
           None \<Rightarrow> (plain_result False ''Item not found in cart'', c)
         | Some it \<Rightarrow>
             (case getProductById db pid of
                None \<Rightarrow> (plain_result False ''Product not found'', c)
              | Some p \<Rightarrow>
                  if prod_stock p < qty then (plain_result False ''Insufficient stock'', c)
                  else
                    (let c' = calculateTotals
                                (c\<lparr>cart_items :=
                                     update_first (\<lambda>i. productId i = pid)
                                       (\<lambda>i. i\<lparr>quantity := qty\<rparr>) (cart_items c)\<rparr>)
                     in ((plain_result True ''Item quantity updated'')
                           \<lparr>res_item := Some (it\<lparr>quantity := qty\<rparr>)\<rparr>, c')))))"

definition applyDiscount :: "num \<Rightarrow> cart \<Rightarrow> result \<times> cart" where
  "applyDiscount amount c =
     (if amount < 0 then (plain_result False ''Invalid discount amount'', c)
      else if amount > cart_subtotal c
           then (plain_result False ''Discount cannot exceed subtotal'', c)
      else
        (let c' = calculateTotals (c\<lparr>cart_discountAmount := amount\<rparr>)
         in ((plain_result True ''Discount applied'')
               \<lparr>res_discountAmount := Some (cart_discountAmount c'),
                res_total := Some (cart_total c')\<rparr>, c')))"

definition clearCart :: "cart \<Rightarrow> result \<times> cart" where
  "clearCart c =
     (plain_result True ''Cart cleared'',
      c\<lparr>cart_items := [], cart_subtotal := 0, cart_taxAmount := 0, cart_discountAmount := 0,
        cart_total := 0, cart_customerId := None, cart_notes := []\<rparr>)"

definition createTransaction ::
  "string option \<Rightarrow> string option \<Rightarrow> string \<Rightarrow> string \<Rightarrow> cart \<Rightarrow> result" where
  "createTransaction employee store fresh now c =
     (if cart_items c = [] then plain_result False ''Cart is empty''
      else if str_or_null employee = None then plain_result False ''Employee ID is required''
      else if str_or_null store = None then plain_result False ''Store ID is required''
      else
        (let transactionItems =
               map (\<lambda>i. \<lparr>item_productId = productId i, item_name = name i,
                          priceAtSale = price i, taxRateAtSale = taxRate i,
                          item_quantity = quantity i,
                          item_recognitionMethod = recognitionMethod i,
                          item_recognitionConfidence = recognitionConfidence i\<rparr>)
                 (cart_items c);
             t = Transaction
                   \<lparr>d_id = None, d_items = Some transactionItems,
                    d_subtotal = Some (cart_subtotal c), d_taxAmount = Some (cart_taxAmount c),
                    d_discountAmount = Some (cart_discountAmount c),
                    d_total = Some (cart_total c), d_status = Some ''pending'',
                    d_paymentMethods = None, d_customerId = cart_customerId c,
                    d_employeeId = employee, d_storeId = store, d_notes = Some (cart_notes c),
                    d_createdAt = Some now, d_completedAt = None, d_voidedAt = None\<rparr>
                   fresh now
         in (plain_result True ''Transaction created'')\<lparr>res_transaction := Some t\<rparr>))"

text \<open>
  \<open>checkout\<close>. The statements run in the source's order: the cart is cleared before the
  returned object, and with it \<open>change\<close>, is built.
\<close>

definition checkout ::
  "database \<Rightarrow> string option \<Rightarrow> string option \<Rightarrow> payment_input list \<Rightarrow> string \<Rightarrow> string \<Rightarrow>
     cart \<Rightarrow> result \<times> database \<times> cart" where
  "checkout db employee store pms fresh now c =
     (let transactionResult = createTransaction employee store fresh now c
      in if \<not> success transactionResult then (transactionResult, db, c)
         else
           (case res_transaction transactionResult of
              None \<Rightarrow> (plain_result False ''Checkout failed'', db, c)
            | Some t \<Rightarrow>
                if pms = []
                then ((plain_result False ''Payment methods are required'')
                        \<lparr>res_transaction := Some t\<rparr>, db, c)
                else
                  (let totalPayment = foldl (\<lambda>sum m. sum + num_or_0 (in_amount m)) 0 pms
                   in if totalPayment < cart_total c
                      then ((plain_result False ''Insufficient payment amount'')
                              \<lparr>res_transaction := Some t,
                               amountDue := Some (cart_total c - totalPayment)\<rparr>, db, c)
                      else
                        (let t1 = foldl (\<lambda>t m. snd (addPaymentMethod
                                      \<lparr>in_type = in_type m, in_amount = in_amount m,
                                       in_reference = str_or_null (in_reference m),
                                       in_timestamp = Some now\<rparr> now t))
                                    (fromObject t fresh now) pms;
                             t2 = snd (complete now t1);
                             db1 = foldl (\<lambda>d i. adjust_stock d (productId i) (- quantity i))
                                     db (cart_items c);
                             db2 = snd (saveTransaction db1 t2);
                             c' = snd (clearCart c)
                         in ((plain_result True ''Checkout completed'')
                               \<lparr>res_transaction := Some t2,
                                change := Some (totalPayment - cart_total c')\<rparr>, db2, c')))))"

text \<open>
  The cart's public mutators, each call with the catalog as it is when the call is made.
\<close>

datatype cart_op =
    AddItem string num string num
  | RemoveItem string
  | UpdateItemQuantity string num
  | ApplyDiscount num
  | ClearCart

fun cart_step :: "cart \<Rightarrow> database \<times> cart_op \<Rightarrow> cart" where
  "cart_step c (db, AddItem pid qty method confidence) =
     snd (addItem db pid qty method confidence c)"
| "cart_step c (db, RemoveItem pid) = snd (removeItem pid c)"
| "cart_step c (db, UpdateItemQuantity pid qty) = snd (updateItemQuantity db pid qty c)"
| "cart_step c (db, ApplyDiscount amount) = snd (applyDiscount amount c)"
| "cart_step c (db, ClearCart) = snd (clearCart c)"

definition cart_run :: "(database \<times> cart_op) list \<Rightarrow> cart" where
  "cart_run calls = foldl cart_step new_cart calls"




section \<open>User, AuthService and the request dispatcher\<close>

record user =
  user_id :: string
  username :: string
  role :: string
  permissions :: "string list"

definition getDefaultPermissions :: "string \<Rightarrow> string list" where
  "getDefaultPermissions r =
     (if r = ''admin'' then
        [''users:read'', ''users:create'', ''users:update'', ''users:delete'',
         ''products:read'', ''products:create'', ''products:update'', ''products:delete'',
         ''transactions:read'', ''transactions:create'', ''transactions:update'',
         ''transactions:void'', ''reports:read'', ''settings:read'', ''settings:update'']
      else if r = ''manager'' then
        [''users:read'', ''products:read'', ''products:create'', ''products:update'',
         ''transactions:read'', ''transactions:create'', ''transactions:update'',
         ''transactions:void'', ''reports:read'', ''settings:read'']
      else if r = ''cashier'' then
        [''products:read'', ''transactions:read'', ''transactions:create'']
      else [])"

text \<open>
  \<open>new User(data)\<close>, for the properties the dispatcher reads: the role defaults to
  cashier, and the permissions to the role's defaults unless the data lists them.
\<close>

definition User ::
  "string \<Rightarrow> string \<Rightarrow> string option \<Rightarrow> string list option \<Rightarrow> user" where
  "User uid uname r perms =
     \<lparr>user_id = uid, username = uname, role = str_or r ''cashier'',
      permissions = (case perms of
                       None \<Rightarrow> getDefaultPermissions (str_or r ''cashier'')
                     | Some ps \<Rightarrow> ps)\<rparr>"

text \<open>The session of \<open>AuthService\<close>; times are milliseconds since the epoch.\<close>

record auth =
  currentUser :: "user option"
  token :: "string option"
  tokenExpiry :: "nat option"

definition getCurrentUser :: "auth \<Rightarrow> nat \<Rightarrow> user option" where
  "getCurrentUser a now =
     (case (currentUser a, str_or_null (token a), tokenExpiry a) of
        (Some u, Some _, Some expiry) \<Rightarrow> if now > expiry then None else Some u
      | _ \<Rightarrow> None)"

definition isAuthenticated :: "auth \<Rightarrow> nat \<Rightarrow> bool" where
  "isAuthenticated a now = (getCurrentUser a now \<noteq> None)"

definition hasPermission :: "auth \<Rightarrow> nat \<Rightarrow> string \<Rightarrow> bool" where
  "hasPermission a now permission =
     (case getCurrentUser a now of
        None \<Rightarrow> False
      | Some u \<Rightarrow> permission \<in> set (permissions u))"

text \<open>
  A request's path parameters are an object with string keys: an association list,
  where assigning to a key replaces its value or appends the key.
\<close>

type_synonym params = "(string \<times> string) list"

fun assign :: "'k \<Rightarrow> 'v \<Rightarrow> ('k \<times> 'v) list \<Rightarrow> ('k \<times> 'v) list" where
  "assign k v [] = [(k, v)]"
| "assign k v (e # es) = (if fst e = k then (k, v) # es else e # assign k v es)"

fun lookup :: "('k \<times> 'v) list \<Rightarrow> 'k \<Rightarrow> 'v option" where
  "lookup [] k = None"
| "lookup (e # es) k = (if fst e = k then Some (snd e) else lookup es k)"

text \<open>
  A handler answers with an envelope, or throws (\<open>None\<close>). The data it works on and the
  data it returns are left open.
\<close>

record ('a, 'd) endpoint =
  handler :: "params \<Rightarrow> 'a \<Rightarrow> 'd response option"
  ep_permissions :: "string list"

text \<open>
  \<open>this.endpoints\<close>: an object used as a dictionary. Its keys are route strings such as
  \<open>'GET /api/products'\<close>, which \<open>Object.entries\<close> lists in the order of registration.
\<close>

type_synonym ('a, 'd) endpoints = "(string \<times> ('a, 'd) endpoint) list"

definition registerEndpoint ::
  "string \<Rightarrow> (params \<Rightarrow> 'a \<Rightarrow> 'd response option) \<Rightarrow> string list \<Rightarrow> ('a, 'd) endpoints \<Rightarrow>
     ('a, 'd) endpoints" where
  "registerEndpoint path h perms eps =
     assign path \<lparr>handler = h, ep_permissions = perms\<rparr> eps"

text \<open>\<open>s.split(c)\<close> for a separator of one character.\<close>

fun split :: "char \<Rightarrow> string \<Rightarrow> string list" where
  "split c [] = [[]]"
| "split c (x # xs) =
     (if x = c then [] # split c xs
      else (case split c xs of [] \<Rightarrow> [[x]] | w # ws \<Rightarrow> (x # w) # ws))"

text \<open>\<open>parts[i]\<close>, which is \<open>undefined\<close> past the end.\<close>

fun part_at :: "'a list \<Rightarrow> nat \<Rightarrow> 'a option" where
  "part_at [] i = None"
| "part_at (x # xs) 0 = Some x"
| "part_at (x # xs) (Suc i) = part_at xs i"

text \<open>The loop of \<open>matchPathPattern\<close> over the two lists of parts, of equal length.\<close>

fun match_parts :: "string list \<Rightarrow> string list \<Rightarrow> params \<Rightarrow> params option" where
  "match_parts (patternPart # ps) (pathPart # qs) acc =
     (if patternPart \<noteq> [] \<and> hd patternPart = CHR '':''
      then match_parts ps qs (assign (tl patternPart) pathPart acc)
      else if patternPart \<noteq> pathPart then None
      else match_parts ps qs acc)"
| "match_parts _ _ acc = Some acc"

definition matchPathPattern :: "string \<Rightarrow> string \<Rightarrow> params option" where
  "matchPathPattern pattern path =
     (let patternParts = split CHR ''/'' pattern; pathParts = split CHR ''/'' path
      in if length patternParts \<noteq> length pathParts then None
         else match_parts patternParts pathParts [])"

text \<open>
  The outcome of \<open>findEndpoint\<close>: it throws when \<open>split\<close> is called on \<open>undefined\<close>,
  returns \<open>null\<close>, or returns an endpoint, having added the path parameters to \<open>params\<close>.
\<close>

datatype ('a, 'd) found = Threw | NoEndpoint | Found "('a, 'd) endpoint" params

fun find_pattern ::
  "('a, 'd) endpoints \<Rightarrow> string \<Rightarrow> string option \<Rightarrow> params \<Rightarrow> ('a, 'd) found" where
  "find_pattern [] method path params = NoEndpoint"
| "find_pattern ((pattern, ep) # rest) method path params =
     (let patternParts = split CHR '' '' pattern
      in if part_at patternParts 0 \<noteq> Some method then find_pattern rest method path params
         else
           (case (part_at patternParts 1, path) of
              (Some patternPath, Some p) \<Rightarrow>
                (case matchPathPattern patternPath p of
                   None \<Rightarrow> find_pattern rest method path params
                 | Some m \<Rightarrow> Found ep (foldl (\<lambda>ps (k, v). assign k v ps) params m))
            | _ \<Rightarrow> Threw))"

definition findEndpoint ::
  "('a, 'd) endpoints \<Rightarrow> string \<Rightarrow> string option \<Rightarrow> params \<Rightarrow> ('a, 'd) found" where
  "findEndpoint eps method path params =
     (case lookup eps (method @ '' '' @ (case path of None \<Rightarrow> ''undefined'' | Some p \<Rightarrow> p)) of
        Some ep \<Rightarrow> Found ep params
      | None \<Rightarrow> find_pattern eps method path params)"

definition handleRequest ::
  "('a, 'd) endpoints \<Rightarrow> auth \<Rightarrow> nat \<Rightarrow> string \<Rightarrow> params \<Rightarrow> 'a \<Rightarrow> 'd response" where
  "handleRequest eps a now path params data =
     (let pathParts = split CHR '' '' path
      in case part_at pathParts 0 of
           None \<Rightarrow> failure 500 ''Internal server error''
         | Some method \<Rightarrow>
             (case findEndpoint eps method (part_at pathParts 1) params of
                Threw \<Rightarrow> failure 500 ''Internal server error''
              | NoEndpoint \<Rightarrow> failure 404 ''Endpoint not found''
              | Found ep params' \<Rightarrow>
                  if ep_permissions ep \<noteq> [] \<and> \<not> isAuthenticated a now
                  then failure 401 ''Authentication required''
                  else if ep_permissions ep \<noteq> [] \<and>
                          \<not> list_all (hasPermission a now) (ep_permissions ep)
                  then failure 403 ''Permission denied''
                  else
                    (case handler ep params' data of
                       None \<Rightarrow> failure 500 ''Internal server error''
                     | Some r \<Rightarrow> r)))"

text \<open>
  \<open>registerEndpoints\<close>: the routes in the order of the source. The handlers are the
  service's methods, looked up here by name in \<open>h\<close>.
\<close>

definition routes :: "(string \<times> string \<times> string list) list" where
  "routes =
     [(''GET /api/products'', ''getProducts'', [''products:read'']),
      (''GET /api/products/:id'', ''getProductById'', [''products:read'']),
      (''POST /api/products'', ''createProduct'', [''products:create'']),
      (''PUT /api/products/:id'', ''updateProduct'', [''products:update'']),
      (''DELETE /api/products/:id'', ''deleteProduct'', [''products:delete'']),
      (''GET /api/products/category/:category'', ''getProductsByCategory'',
         [''products:read'']),
      (''GET /api/products/search/:query'', ''searchProducts'', [''products:read'']),
      (''GET /api/transactions'', ''getTransactions'', [''transactions:read'']),
      (''GET /api/transactions/:id'', ''getTransactionById'', [''transactions:read'']),
      (''POST /api/transactions'', ''createTransaction'', [''transactions:create'']),
      (''PUT /api/transactions/:id'', ''updateTransaction'', [''transactions:update'']),
      (''POST /api/transactions/:id/complete'', ''completeTransaction'',
         [''transactions:update'']),
      (''POST /api/transactions/:id/void'', ''voidTransaction'', [''transactions:void'']),
      (''GET /api/users'', ''getUsers'', [''users:read'']),
      (''GET /api/users/:id'', ''getUserById'', [''users:read'']),
      (''POST /api/users'', ''createUser'', [''users:create'']),
      (''PUT /api/users/:id'', ''updateUser'', [''users:update'']),
      (''DELETE /api/users/:id'', ''deleteUser'', [''users:delete'']),
      (''POST /api/users/:id/reset-password'', ''resetUserPassword'', [''users:update'']),
      (''POST /api/auth/login'', ''login'', []),
      (''POST /api/auth/logout'', ''logout'', []),
      (''GET /api/auth/current-user'', ''getCurrentUser'', []),
      (''POST /api/auth/change-password'', ''changePassword'', []),
      (''GET /api/settings'', ''getSettings'', [''settings:read'']),
      (''PUT /api/settings'', ''updateSettings'', [''settings:update'']),
      (''GET /api/settings/:key'', ''getSetting'', [''settings:read'']),
      (''PUT /api/settings/:key'', ''updateSetting'', [''settings:update'']),
      (''POST /api/vision/process'', ''processImage'', [''products:read'']),
      (''POST /api/vision/train'', ''trainModel'', [''products:update'']),
      (''GET /api/vision/model-info'', ''getModelInfo'', [''products:read'']),
      (''PUT /api/vision/threshold'', ''setConfidenceThreshold'', [''settings:update''])]"

definition registerEndpoints ::
  "(string \<Rightarrow> params \<Rightarrow> 'a \<Rightarrow> 'd response option) \<Rightarrow> ('a, 'd) endpoints" where
  "registerEndpoints h =
     foldl (\<lambda>eps (path, method_name, perms). registerEndpoint path (h method_name) perms eps)
       [] routes"

section \<open>The lifecycle of one transaction\<close>

text \<open>
  \<open>updateTransaction\<close> seen from one stored transaction: the database holds it under its
  id, the handler runs, and the transaction stored under that id afterwards is the result.
\<close>

definition update_on :: "transaction \<Rightarrow> txn_data \<Rightarrow> string \<Rightarrow> string \<Rightarrow> transaction" where
  "update_on t data fresh now =
     (let db = \<lparr>products = Map.empty, transactions = [txn_id t \<mapsto> t]\<rparr>;
          db' = snd (updateTransaction db (txn_id t) data fresh now)
      in case getTransactionById db' (txn_id t) of None \<Rightarrow> t | Some t' \<Rightarrow> t')"

datatype txn_op =
    AddPayment payment_input
  | Complete
  | Void string
  | Update txn_data

text \<open>One lifecycle call, with the generated id suffix and the time of the call.\<close>

fun txn_step :: "transaction \<Rightarrow> string \<times> string \<times> txn_op \<Rightarrow> transaction" where
  "txn_step t (fresh, now, AddPayment m) = snd (addPaymentMethod m now t)"
| "txn_step t (fresh, now, Complete) = snd (complete now t)"
| "txn_step t (fresh, now, Void reason) = snd (void reason now t)"
| "txn_step t (fresh, now, Update data) = update_on t data fresh now"

fun is_AddPayment :: "string \<times> string \<times> txn_op \<Rightarrow> bool" where
  "is_AddPayment (fresh, now, AddPayment m) = True"
| "is_AddPayment _ = False"

text \<open>The sum of the quantities of the lines for one product.\<close>

definition line_quantity :: "string \<Rightarrow> txn_item list \<Rightarrow> num" where
  "line_quantity k its = (\<Sum>i\<leftarrow>its. if item_productId i = k then item_quantity i else 0)"

text \<open>What \<open>void\<close> appends to the notes, for the reason the handler was given.\<close>

definition void_note :: "string option \<Rightarrow> string" where
  "void_note reason =
     (if str_or reason [] \<noteq> [] then CHR 0x0A # ''Voided: '' @ str_or reason []
      else CHR 0x0A # ''Voided'')"

section \<open>Concrete catalogs, carts and transactions\<close>

text \<open>
  The product of the spec's scenario A, and a product whose price is a whole number, in
  a catalog of ten pieces each.
\<close>

definition catalog :: database where
  "catalog =
     \<lparr>products =
        [''p1'' \<mapsto> \<lparr>prod_id = ''p1'', prod_name = ''Test Product'', prod_price = 999 / 100,
                    prod_taxRate = 75 / 10, prod_stock = 10\<rparr>,
         ''p2'' \<mapsto> \<lparr>prod_id = ''p2'', prod_name = ''Crate'', prod_price = 10,
                    prod_taxRate = 0, prod_stock = 10\<rparr>],
      transactions = Map.empty\<rparr>"

text \<open>
  The transaction of scenario C: the cart of scenario A checked out, total 32.22, nothing
  paid yet; and a cash payment as a caller passes it.
\<close>

definition sale :: transaction where
  "sale =
     \<lparr>txn_id = ''t1'',
      items = [\<lparr>item_productId = ''p1'', item_name = ''Test Product'', priceAtSale = 999 / 100,
                taxRateAtSale = 75 / 10, item_quantity = 3, item_recognitionMethod = ''manual'',
                item_recognitionConfidence = 1\<rparr>],
      subtotal = 2997 / 100, taxAmount = 225 / 100, discountAmount = 0, total = 3222 / 100,
      status = ''pending'', paymentMethods = [], customerId = None,
      employeeId = Some ''emp123'', storeId = Some ''store456'', txn_notes = [],
      createdAt = ''2024-01-01T10:00:00.000Z'', completedAt = None, voidedAt = None\<rparr>"

definition cash :: "num \<Rightarrow> payment_input" where
  "cash a = \<lparr>in_type = Some ''cash'', in_amount = Some a, in_reference = None,
             in_timestamp = None\<rparr>"

text \<open>Request data that sets the status and nothing else.\<close>

definition set_status :: "string \<Rightarrow> txn_data" where
  "set_status s =
     \<lparr>d_id = None, d_items = None, d_subtotal = None, d_taxAmount = None,
      d_discountAmount = None, d_total = None, d_status = Some s, d_paymentMethods = None,
      d_customerId = None, d_employeeId = None, d_storeId = None, d_notes = None,
      d_createdAt = None, d_completedAt = None, d_voidedAt = None\<rparr>"

text \<open>
  Carts built by the cart's own calls on the catalog: three crates; eight crates; and one
  crate, a discount of 5, and the crate removed again.
\<close>

definition crates :: cart where
  "crates = cart_run [(catalog, AddItem ''p2'' 3 ''manual'' 1)]"

definition eight_crates :: cart where
  "eight_crates = cart_run [(catalog, AddItem ''p2'' 8 ''manual'' 1)]"


text \<open>
  A shop that holds the pending sale of scenario C; and a shop with one crate left and a
  pending sale of two crates.
\<close>

definition shop :: database where
  "shop = catalog\<lparr>transactions := [''t1'' \<mapsto> sale]\<rparr>"

definition two_crates :: transaction where
  "two_crates =
     \<lparr>txn_id = ''t2'',
      items = [\<lparr>item_productId = ''p2'', item_name = ''Crate'', priceAtSale = 10,
                taxRateAtSale = 0, item_quantity = 2, item_recognitionMethod = ''manual'',
                item_recognitionConfidence = 1\<rparr>],
      subtotal = 20, taxAmount = 0, discountAmount = 0, total = 20,
      status = ''pending'', paymentMethods = [], customerId = None,
      employeeId = Some ''emp123'', storeId = Some ''store456'', txn_notes = [],
      createdAt = ''2024-01-01T10:00:00.000Z'', completedAt = None, voidedAt = None\<rparr>"

definition scarce :: database where
  "scarce =
     \<lparr>products = [''p2'' \<mapsto> \<lparr>prod_id = ''p2'', prod_name = ''Crate'', prod_price = 10,
                               prod_taxRate = 0, prod_stock = 1\<rparr>],
      transactions = [''t2'' \<mapsto> two_crates]\<rparr>"

text \<open>The shop after the sale of scenario C was paid with 40 in cash and completed.\<close>

definition sold :: database where
  "sold = snd (completeTransaction shop ''t1'' [cash 40] ''1'' ''t5'')"

text \<open>
  A cashier's session that is valid until time 2000, the state without a session, and
  handlers that answer with their own name.
\<close>

definition cashier_session :: auth where
  "cashier_session =
     \<lparr>currentUser = Some (User ''user_1'' ''carol'' (Some ''cashier'') None),
      token = Some ''token_1'', tokenExpiry = Some 2000\<rparr>"

definition no_session :: auth where
  "no_session = \<lparr>currentUser = None, token = None, tokenExpiry = None\<rparr>"

definition echo :: "string \<Rightarrow> params \<Rightarrow> string \<Rightarrow> string response option" where
  "echo method_name ps d = Some (succeeded 200 method_name)"

section \<open>Cart totals\<close>

lemma toFixed2_round_half_up: "toFixed2 x = round_half_up_2dp x"
proof -
  have "\<lfloor>(1::rat) / 2\<rfloor> = 0" by (simp add: floor_eq_iff)
  then show ?thesis
    by (simp add: toFixed2_def round_half_up_2dp_def round_def sgn_if)
qed

lemma foldl_add_sum_list:
  "foldl (\<lambda>s i. s + f i) a xs = (a::num) + sum_list (map f xs)"
  by (induction xs arbitrary: a) (simp_all add: add.assoc)


lemma calculateTotals_items [simp]: "cart_items (calculateTotals c) = cart_items c"
  by (simp add: calculateTotals_def Let_def)

lemma calculateTotals_discount [simp]:
  "cart_discountAmount (calculateTotals c) = cart_discountAmount c"
  by (simp add: calculateTotals_def Let_def)

lemma floor_rat_numeral [simp]:
  "\<lfloor>numeral a / numeral b :: rat\<rfloor> = numeral a div numeral b"
  using floor_divide_of_int_eq [of "numeral a" "numeral b", where ?'a = rat] by simp












text \<open>Scenario A of the spec: three pieces at 9.99 with 7.5 percent tax.\<close>

lemma scenario_A:
  "cart_subtotal (cart_run [(catalog, AddItem ''p1'' 3 ''manual'' 1)]) = 2997 / 100 \<and>
   cart_taxAmount (cart_run [(catalog, AddItem ''p1'' 3 ''manual'' 1)]) = 225 / 100 \<and>
   cart_total (cart_run [(catalog, AddItem ''p1'' 3 ''manual'' 1)]) = 3222 / 100"
  by (simp add: cart_run_def catalog_def addItem_def getProductById_def new_cart_def
      calculateTotals_def Let_def toFixed2_def)

text \<open>\<open>Transaction.calculateTotals\<close> rounds the same three sums in the same way.\<close>

lemma calculateTotals_txn_rounds:
  "subtotal (calculateTotals_txn t) =
     round_half_up_2dp (\<Sum>i\<leftarrow>items t. priceAtSale i * item_quantity i) \<and>
   taxAmount (calculateTotals_txn t) =
     round_half_up_2dp (\<Sum>i\<leftarrow>items t. priceAtSale i * item_quantity i * taxRateAtSale i / 100) \<and>
   total (calculateTotals_txn t) =
     round_half_up_2dp
       ((\<Sum>i\<leftarrow>items t. priceAtSale i * item_quantity i) +
        (\<Sum>i\<leftarrow>items t. priceAtSale i * item_quantity i * taxRateAtSale i / 100) -
        discountAmount t)"
proof -
  have tax: "(if taxRateAtSale i \<noteq> 0
              then priceAtSale i * item_quantity i * (taxRateAtSale i / 100) else 0)
      = priceAtSale i * item_quantity i * taxRateAtSale i / 100" for i :: txn_item
    by simp
  show ?thesis
    unfolding calculateTotals_txn_def Let_def
    by (simp add: foldl_add_sum_list tax toFixed2_round_half_up)
qed

section \<open>The example sale and cash payments\<close>

lemma sale_fields [simp]:
  "status sale = ''pending''" "paymentMethods sale = []" "total sale = 3222 / 100"
  "txn_id sale = ''t1''"
  by (simp_all add: sale_def)

lemma cash_fields [simp]:
  "in_type (cash a) = Some ''cash''" "in_amount (cash a) = Some a"
  "in_reference (cash a) = None" "in_timestamp (cash a) = None"
  by (simp_all add: cash_def)

lemma addPaymentMethod_cash:
  "a \<noteq> 0 \<Longrightarrow> addPaymentMethod (cash a) now t =
     (True, t\<lparr>paymentMethods := paymentMethods t @
        [\<lparr>pm_type = ''cash'', pm_amount = a, pm_reference = None, pm_timestamp = now\<rparr>]\<rparr>)"
  by (simp add: addPaymentMethod_def str_or_null_def str_or_def num_or_0_def)

section \<open>Completing a transaction\<close>

lemma totalPaid_sum: "totalPaid t = (\<Sum>m\<leftarrow>paymentMethods t. pm_amount m)"
  by (simp add: totalPaid_def foldl_add_sum_list)



section \<open>Adding a payment\<close>

text \<open>
  Claim C8 as stated fails: an entry of 20 without a type is rejected although its amount
  is positive; an entry with the amount -5 is accepted; and an entry is accepted on a
  transaction that is already completed.
\<close>

theorem addPayment_counterexample:
  "in_amount ((cash 20)\<lparr>in_type := None\<rparr>) = Some 20 \<and>
   addPaymentMethod ((cash 20)\<lparr>in_type := None\<rparr>) ''t2'' sale = (False, sale) \<and>
   in_amount (cash (- 5)) = Some (- 5) \<and>
   addPaymentMethod (cash (- 5)) ''t2'' sale =
     (True, sale\<lparr>paymentMethods := [\<lparr>pm_type = ''cash'', pm_amount = - 5,
                                         pm_reference = None, pm_timestamp = ''t2''\<rparr>]\<rparr>) \<and>
   status (sale\<lparr>status := ''completed''\<rparr>) = ''completed'' \<and>
   addPaymentMethod (cash 20) ''t2'' (sale\<lparr>status := ''completed''\<rparr>) =
     (True, sale\<lparr>status := ''completed'',
                 paymentMethods := [\<lparr>pm_type = ''cash'', pm_amount = 20,
                                     pm_reference = None, pm_timestamp = ''t2''\<rparr>]\<rparr>)"
  by (simp add: addPaymentMethod_cash) (simp add: addPaymentMethod_def str_or_null_def)

text \<open>
  Claim C8, amended. \<open>addPaymentMethod\<close> rejects an entry, and changes nothing, when its
  type is missing or empty or its amount is missing or zero. An entry with a type and a
  positive amount is appended to the payment entries and nothing else in the transaction
  changes; the status is not looked at, so this holds in every status.
\<close>

theorem addPayment_accepts_positive:
  "(in_type m = None \<or> in_type m = Some [] \<or> in_amount m = None \<or> in_amount m = Some 0 \<longrightarrow>
      addPaymentMethod m now t = (False, t)) \<and>
   (in_type m = Some ty \<and> ty \<noteq> [] \<and> in_amount m = Some a \<and> 0 < a \<longrightarrow>
      addPaymentMethod m now t =
        (True, t\<lparr>paymentMethods := paymentMethods t @
           [\<lparr>pm_type = ty, pm_amount = a, pm_reference = str_or_null (in_reference m),
             pm_timestamp = str_or (in_timestamp m) now\<rparr>]\<rparr>))"
  by (auto simp: addPaymentMethod_def str_or_null_def str_or_def num_or_0_def)

text \<open>
  A cash payment of 20 is appended, on the pending sale and on a completed one; a payment
  of 0 is rejected.
\<close>

theorem addPayment_accepts_positive_witness:
  "addPaymentMethod (cash 20) ''t0'' sale =
     (True, sale\<lparr>paymentMethods :=
        [\<lparr>pm_type = ''cash'', pm_amount = 20, pm_reference = None, pm_timestamp = ''t0''\<rparr>]\<rparr>) \<and>
   addPaymentMethod (cash 20) ''t0'' (sale\<lparr>status := ''completed''\<rparr>) =
     (True, sale\<lparr>status := ''completed'', paymentMethods :=
        [\<lparr>pm_type = ''cash'', pm_amount = 20, pm_reference = None, pm_timestamp = ''t0''\<rparr>]\<rparr>) \<and>
   addPaymentMethod (cash 0) ''t0'' sale = (False, sale)"
proof -
  note P = addPayment_accepts_positive [THEN conjunct2, THEN mp]
  note N = addPayment_accepts_positive [THEN conjunct1, THEN mp]
  have c: "in_type (cash 20) = Some ''cash'' \<and> ''cash'' \<noteq> [] \<and> in_amount (cash 20) = Some 20 \<and>
      (0::num) < 20"
    by simp
  have z: "in_type (cash 0) = None \<or> in_type (cash 0) = Some [] \<or> in_amount (cash 0) = None \<or>
      in_amount (cash 0) = Some 0"
    by simp
  from P [OF c, of "''t0''" sale] P [OF c, of "''t0''" "sale\<lparr>status := ''completed''\<rparr>"]
    N [OF z, of "''t0''" sale]
  show ?thesis by (simp add: str_or_null_def str_or_def)
qed

section \<open>Terminal states\<close>

lemma updateTransaction_terminal:
  "getTransactionById db k = Some t \<Longrightarrow> status t = ''completed'' \<or> status t = ''voided'' \<Longrightarrow>
     updateTransaction db k data fresh now =
       (failure 400 ''Cannot update completed or voided transaction'', db)"
  unfolding updateTransaction_def by simp

lemma update_on_terminal:
  assumes "status t = ''completed'' \<or> status t = ''voided''"
  shows "update_on t data fresh now = t"
proof -
  let ?db = "\<lparr>products = Map.empty, transactions = [txn_id t \<mapsto> t]\<rparr>"
  have g: "getTransactionById ?db (txn_id t) = Some t"
    by (simp add: getTransactionById_def)
  show ?thesis
    unfolding update_on_def Let_def updateTransaction_terminal [OF g assms]
    by (simp add: g)
qed

lemma txn_step_voided:
  assumes v: "status t = ''voided''"
  shows "txn_step t call = t\<lparr>paymentMethods := paymentMethods (txn_step t call)\<rparr>"
    and "\<not> is_AddPayment call \<Longrightarrow> txn_step t call = t"
proof -
  obtain fresh now op where call: "call = (fresh, now, op)" by (cases call)
  have u: "update_on t data fresh now = t" for data
    using v by (simp add: update_on_terminal)
  show "txn_step t call = t\<lparr>paymentMethods := paymentMethods (txn_step t call)\<rparr>"
  proof (cases op)
    case (AddPayment m)
    then show ?thesis unfolding call by (simp add: addPaymentMethod_def)
  next
    case Complete
    then show ?thesis unfolding call using v by (simp add: complete_def)
  next
    case (Void r)
    then show ?thesis unfolding call using v by (simp add: void_def)
  next
    case (Update d)
    then show ?thesis unfolding call by (simp add: u)
  qed
  show "txn_step t call = t" if "\<not> is_AddPayment call"
  proof (cases op)
    case (AddPayment m)
    with that show ?thesis unfolding call by simp
  next
    case Complete
    then show ?thesis unfolding call using v by (simp add: complete_def)
  next
    case (Void r)
    then show ?thesis unfolding call using v by (simp add: void_def)
  next
    case (Update d)
    then show ?thesis unfolding call by (simp add: u)
  qed
qed

lemma txn_step_completed:
  assumes v: "status t = ''completed''"
  shows "status (txn_step t call) = ''completed'' \<or> status (txn_step t call) = ''voided''"
proof -
  obtain fresh now op where call: "call = (fresh, now, op)" by (cases call)
  have u: "update_on t data fresh now = t" for data
    using v by (simp add: update_on_terminal)
  show ?thesis
  proof (cases op)
    case (AddPayment m)
    then show ?thesis unfolding call using v by (simp add: addPaymentMethod_def)
  next
    case Complete
    then show ?thesis unfolding call using v by (simp add: complete_def)
  next
    case (Void r)
    then show ?thesis unfolding call using v by (simp add: void_def)
  next
    case (Update d)
    then show ?thesis unfolding call using v by (simp add: u)
  qed
qed

lemma same_but_payments_status:
  "t' = t\<lparr>paymentMethods := ps\<rparr> \<Longrightarrow> status t' = status t"
  by simp

lemma same_but_payments_trans:
  "t'' = t'\<lparr>paymentMethods := qs\<rparr> \<Longrightarrow> t' = t\<lparr>paymentMethods := ps\<rparr> \<Longrightarrow>
     t'' = t\<lparr>paymentMethods := qs\<rparr>"
  by simp

lemma run_voided:
  "status t = ''voided'' \<Longrightarrow>
     foldl txn_step t calls = t\<lparr>paymentMethods := paymentMethods (foldl txn_step t calls)\<rparr>"
proof (induction calls arbitrary: t)
  case Nil
  then show ?case by simp
next
  case (Cons call calls)
  let ?t1 = "txn_step t call"
  from Cons.prems have s1: "?t1 = t\<lparr>paymentMethods := paymentMethods ?t1\<rparr>"
    by (rule txn_step_voided(1))
  have "status ?t1 = status t" by (rule same_but_payments_status [OF s1])
  with Cons.prems have "status ?t1 = ''voided''" by simp
  from Cons.IH [OF this]
  have "foldl txn_step ?t1 calls = ?t1\<lparr>paymentMethods := paymentMethods (foldl txn_step ?t1 calls)\<rparr>" .
  from same_but_payments_trans [OF this s1] show ?case by simp
qed

lemma run_voided_no_payment:
  "status t = ''voided'' \<Longrightarrow> \<forall>call\<in>set calls. \<not> is_AddPayment call \<Longrightarrow>
     foldl txn_step t calls = t"
  by (induction calls arbitrary: t) (simp_all add: txn_step_voided(2))

lemma run_completed:
  "status t = ''completed'' \<or> status t = ''voided'' \<Longrightarrow>
     status (foldl txn_step t calls) = ''completed'' \<or> status (foldl txn_step t calls) = ''voided''"
proof (induction calls arbitrary: t)
  case Nil
  then show ?case by simp
next
  case (Cons call calls)
  have "status (txn_step t call) = ''completed'' \<or> status (txn_step t call) = ''voided''"
  proof (cases "status t = ''voided''")
    case True
    then have "txn_step t call = t\<lparr>paymentMethods := paymentMethods (txn_step t call)\<rparr>"
      by (rule txn_step_voided(1))
    from same_but_payments_status [OF this] True show ?thesis by simp
  next
    case False
    with Cons.prems have "status t = ''completed''" by simp
    then show ?thesis by (rule txn_step_completed)
  qed
  from Cons.IH [OF this] show ?case by simp
qed


text \<open>
  Claim C3 as stated fails: a voided transaction with no payment entries still takes one,
  so its state does change.
\<close>

theorem lifecycle_counterexample:
  "status (sale\<lparr>status := ''voided''\<rparr>) = ''voided'' \<and>
   paymentMethods (sale\<lparr>status := ''voided''\<rparr>) = [] \<and>
   paymentMethods (txn_step (sale\<lparr>status := ''voided''\<rparr>) (''x'', ''t2'', AddPayment (cash 5))) =
     [\<lparr>pm_type = ''cash'', pm_amount = 5, pm_reference = None, pm_timestamp = ''t2''\<rparr>]"
  by (simp add: addPaymentMethod_cash)

text \<open>
  Claim C3, amended. Under every sequence of lifecycle calls (add payment, complete, void,
  update), a voided transaction stays voided and only its list of payment entries can
  differ; without a call that adds a payment it is unchanged. A completed transaction is
  afterwards completed or voided, never pending again.
\<close>

theorem lifecycle_terminal:
  "(status t = ''voided'' \<longrightarrow>
      status (foldl txn_step t calls) = ''voided'' \<and>
      foldl txn_step t calls = t\<lparr>paymentMethods := paymentMethods (foldl txn_step t calls)\<rparr> \<and>
      ((\<forall>call\<in>set calls. \<not> is_AddPayment call) \<longrightarrow> foldl txn_step t calls = t)) \<and>
   (status t = ''completed'' \<longrightarrow>
      status (foldl txn_step t calls) = ''completed'' \<or>
      status (foldl txn_step t calls) = ''voided'')"
proof (intro conjI impI)
  assume v: "status t = ''voided''"
  show r: "foldl txn_step t calls = t\<lparr>paymentMethods := paymentMethods (foldl txn_step t calls)\<rparr>"
    by (rule run_voided [OF v])
  from same_but_payments_status [OF r] v show "status (foldl txn_step t calls) = ''voided''"
    by simp
  show "foldl txn_step t calls = t" if "\<forall>call\<in>set calls. \<not> is_AddPayment call"
    by (rule run_voided_no_payment [OF v that])
next
  assume "status t = ''completed''"
  then show "status (foldl txn_step t calls) = ''completed'' \<or>
      status (foldl txn_step t calls) = ''voided''"
    by (simp add: run_completed)
qed

text \<open>
  A voided sale is unchanged by complete, void and update; a completed sale that is
  updated, completed and then voided ends voided.
\<close>

theorem lifecycle_terminal_witness:
  "status (sale\<lparr>status := ''voided''\<rparr>) = ''voided'' \<and>
   list_all (\<lambda>call. \<not> is_AddPayment call)
     [(''a'', ''t2'', Complete), (''b'', ''t3'', Void ''again''),
      (''c'', ''t4'', Update (set_status ''pending''))] \<and>
   foldl txn_step (sale\<lparr>status := ''voided''\<rparr>)
     [(''a'', ''t2'', Complete), (''b'', ''t3'', Void ''again''),
      (''c'', ''t4'', Update (set_status ''pending''))] = sale\<lparr>status := ''voided''\<rparr> \<and>
   status (sale\<lparr>status := ''completed''\<rparr>) = ''completed'' \<and>
   (status (foldl txn_step (sale\<lparr>status := ''completed''\<rparr>)
      [(''a'', ''t2'', Update (set_status ''pending'')), (''b'', ''t3'', Complete),
       (''c'', ''t4'', Void ''refund'')]) = ''completed'' \<or>
    status (foldl txn_step (sale\<lparr>status := ''completed''\<rparr>)
      [(''a'', ''t2'', Update (set_status ''pending'')), (''b'', ''t3'', Complete),
       (''c'', ''t4'', Void ''refund'')]) = ''voided'')"
proof -
  let ?calls = "[(''a'', ''t2'', Complete), (''b'', ''t3'', Void ''again''),
                 (''c'', ''t4'', Update (set_status ''pending''))]"
  have v: "status (sale\<lparr>status := ''voided''\<rparr>) = ''voided''" by simp
  have c: "status (sale\<lparr>status := ''completed''\<rparr>) = ''completed''" by simp
  have n: "\<forall>call\<in>set ?calls. \<not> is_AddPayment call" by simp
  note T = lifecycle_terminal [of "sale\<lparr>status := ''voided''\<rparr>" ?calls]
  from T v n have 1: "foldl txn_step (sale\<lparr>status := ''voided''\<rparr>) ?calls
      = sale\<lparr>status := ''voided''\<rparr>"
    by blast
  from lifecycle_terminal [of "sale\<lparr>status := ''completed''\<rparr>"
      "[(''a'', ''t2'', Update (set_status ''pending'')), (''b'', ''t3'', Complete),
        (''c'', ''t4'', Void ''refund'')]"] c
  have 2: "status (foldl txn_step (sale\<lparr>status := ''completed''\<rparr>)
      [(''a'', ''t2'', Update (set_status ''pending'')), (''b'', ''t3'', Complete),
       (''c'', ''t4'', Void ''refund'')]) = ''completed'' \<or>
    status (foldl txn_step (sale\<lparr>status := ''completed''\<rparr>)
      [(''a'', ''t2'', Update (set_status ''pending'')), (''b'', ''t3'', Complete),
       (''c'', ''t4'', Void ''refund'')]) = ''voided''"
    by blast
  have n': "list_all (\<lambda>call. \<not> is_AddPayment call) ?calls" by simp
  from v n' 1 c 2 show ?thesis by blast
qed

section \<open>Checkout, discounts and stock checks of the cart\<close>

lemma floor_half [simp]: "\<lfloor>(1::rat) / 2\<rfloor> = 0"
  by (simp add: floor_eq_iff)

lemma plain_result_success [simp]: "success (plain_result ok msg) = ok"
  by (simp add: plain_result_def)

lemma plain_result_change [simp]: "change (plain_result ok msg) = None"
  by (simp add: plain_result_def)

lemma catalog_p2:
  "getProductById catalog ''p2'' =
     Some \<lparr>prod_id = ''p2'', prod_name = ''Crate'', prod_price = 10, prod_taxRate = 0,
           prod_stock = 10\<rparr>"
  by (simp add: getProductById_def catalog_def)

lemma toFixed2_int [simp]: "toFixed2 (numeral n) = numeral n" "toFixed2 0 = 0"
  by (simp_all add: toFixed2_def)

lemma crates_fields:
  "cart_items crates =
     [\<lparr>productId = ''p2'', name = ''Crate'', price = 10, taxRate = 0, quantity = 3,
       recognitionMethod = ''manual'', recognitionConfidence = 1\<rparr>]"
  "cart_total crates = 30" "cart_subtotal crates = 30" "cart_discountAmount crates = 0"
  by (simp_all add: crates_def cart_run_def addItem_def catalog_p2 new_cart_def
      calculateTotals_def Let_def)

lemma eight_crates_items:
  "cart_items eight_crates =
     [\<lparr>productId = ''p2'', name = ''Crate'', price = 10, taxRate = 0, quantity = 8,
       recognitionMethod = ''manual'', recognitionConfidence = 1\<rparr>]"
  by (simp add: eight_crates_def cart_run_def addItem_def catalog_p2 new_cart_def
      calculateTotals_def Let_def)



text \<open>
  Claim C10. Whenever \<open>checkout\<close> reports success, the \<open>change\<close> it returns is the
  whole sum of the supplied payment amounts (a missing amount counting as 0), not that sum
  minus the total: the cart is cleared, and its total set to 0, before \<open>change\<close> is
  computed.
\<close>

theorem checkout_change_is_payment:
  "success (fst (checkout db employee store pms fresh now c)) \<Longrightarrow>
     change (fst (checkout db employee store pms fresh now c)) =
       Some (\<Sum>m\<leftarrow>pms. num_or_0 (in_amount m))"
  unfolding checkout_def Let_def
  by (simp add: clearCart_def foldl_add_sum_list split: if_splits option.splits)

text \<open>Three crates for 30 paid with 40 in cash: the change reported is 40.\<close>

theorem checkout_change_is_payment_witness:
  "success (fst (checkout catalog (Some ''emp123'') (Some ''store456'') [cash 40] ''1'' ''t0'' crates)) \<and>
   cart_total crates = 30 \<and>
   change (fst (checkout catalog (Some ''emp123'') (Some ''store456'') [cash 40] ''1'' ''t0'' crates))
     = Some 40"
proof -
  have s: "success (fst (checkout catalog (Some ''emp123'') (Some ''store456'') [cash 40] ''1'' ''t0'' crates))"
    unfolding checkout_def createTransaction_def Let_def
    by (simp add: crates_fields str_or_null_def num_or_0_def cash_def)
  from checkout_change_is_payment [OF s] s show ?thesis
    by (simp add: crates_fields num_or_0_def cash_def)
qed

text \<open>
  Claim C7 on the code. The catalog has ten crates and the cart already holds eight.
  Adding five more succeeds, since only the added five are compared with the stock, and the
  single line for the product then asks for thirteen.
\<close>

theorem addItem_checks_added_quantity_only:
  "map_option prod_stock (getProductById catalog ''p2'') = Some 10 \<and>
   map quantity (cart_items eight_crates) = [8] \<and>
   success (fst (addItem catalog ''p2'' 5 ''manual'' 1 eight_crates)) \<and>
   map productId (cart_items (snd (addItem catalog ''p2'' 5 ''manual'' 1 eight_crates))) = [''p2''] \<and>
   map quantity (cart_items (snd (addItem catalog ''p2'' 5 ''manual'' 1 eight_crates))) = [13]"
  by (simp add: addItem_def catalog_p2 eight_crates_items Let_def)




section \<open>Stock changes of completion and voiding\<close>

lemma transactions_adjust_stock [simp]: "transactions (adjust_stock db k d) = transactions db"
  by (simp add: adjust_stock_def saveProduct_def Let_def getProductById_def split: option.splits)

lemma products_adjust_stock:
  assumes "keyed_by_id db"
  shows "products (adjust_stock db k d) j =
     (if j = k then map_option (\<lambda>p. p\<lparr>prod_stock := prod_stock p + d\<rparr>) (products db k)
      else products db j)"
proof (cases "products db k")
  case None
  then show ?thesis by (simp add: adjust_stock_def getProductById_def)
next
  case (Some p)
  with assms have "prod_id p = k" by (simp add: keyed_by_id_def)
  with Some show ?thesis
    by (simp add: adjust_stock_def getProductById_def saveProduct_def Let_def)
qed

lemma keyed_adjust_stock:
  assumes "keyed_by_id db"
  shows "keyed_by_id (adjust_stock db k d)"
  unfolding keyed_by_id_def
proof (intro allI impI)
  fix j p
  assume "products (adjust_stock db k d) j = Some p"
  then show "prod_id p = j"
    using assms unfolding products_adjust_stock [OF assms] keyed_by_id_def
    by (auto split: if_splits)
qed

lemma products_adjust_all:
  "keyed_by_id db \<Longrightarrow>
     products (foldl (\<lambda>d i. adjust_stock d (item_productId i) (g i)) db its) j =
       map_option
         (\<lambda>p. p\<lparr>prod_stock := prod_stock p +
                   (\<Sum>i\<leftarrow>its. if item_productId i = j then g i else 0)\<rparr>)
         (products db j)"
proof (induction its arbitrary: db)
  case Nil
  then show ?case by (simp add: option.map_ident)
next
  case (Cons i its)
  let ?db1 = "adjust_stock db (item_productId i) (g i)"
  have k1: "keyed_by_id ?db1" by (rule keyed_adjust_stock [OF Cons.prems])
  show ?case
    by (simp add: Cons.IH [OF k1] products_adjust_stock [OF Cons.prems] option.map_comp o_def
        add.assoc option.map_ident)
qed

lemma transactions_adjust_all [simp]:
  "transactions (foldl (\<lambda>d i. adjust_stock d (item_productId i) (g i)) db its) = transactions db"
  by (induction its arbitrary: db) simp_all

lemma fromObject_fields:
  "txn_id t \<noteq> [] \<Longrightarrow> txn_id (fromObject t fresh now) = txn_id t"
  "items (fromObject t fresh now) = items t"
  "status t \<noteq> [] \<Longrightarrow> status (fromObject t fresh now) = status t"
  "txn_notes (fromObject t fresh now) = txn_notes t"
  "paymentMethods (fromObject t fresh now) = paymentMethods t"
  "total (fromObject t fresh now) = total t"
  by (simp_all add: fromObject_def Transaction_def as_data_def str_or_def num_or_0_def)

lemma voidTransaction_completed:
  assumes g: "getTransactionById db k = Some t"
    and c: "status t = ''completed''"
    and i: "txn_id t = k" "k \<noteq> []"
  shows "voidTransaction db k reason fresh now =
     (succeeded 200
        ((fromObject t fresh now)\<lparr>status := ''voided'', voidedAt := Some now,
           txn_notes := txn_notes t @ void_note reason\<rparr>),
      (foldl (\<lambda>d i. adjust_stock d (item_productId i) (item_quantity i)) db (items t))
        \<lparr>transactions := (transactions db)(k \<mapsto>
           (fromObject t fresh now)\<lparr>status := ''voided'', voidedAt := Some now,
              txn_notes := txn_notes t @ void_note reason\<rparr>)\<rparr>)"
proof -
  have s: "status (fromObject t fresh now) = ''completed''"
    using c by (simp add: fromObject_fields)
  have v: "void (str_or reason []) now (fromObject t fresh now) =
      (True, (fromObject t fresh now)\<lparr>status := ''voided'', voidedAt := Some now,
           txn_notes := txn_notes t @ void_note reason\<rparr>)"
    unfolding void_def void_note_def using s by (simp add: fromObject_fields)
  have k: "txn_id (fromObject t fresh now) = k"
    using i by (simp add: fromObject_fields)
  show ?thesis
    unfolding voidTransaction_def
    using g c i by (simp add: v k saveTransaction_def Let_def fromObject_fields)
qed

lemma voidTransaction_voided:
  "getTransactionById db k = Some t \<Longrightarrow> status t = ''voided'' \<Longrightarrow>
     voidTransaction db k reason fresh now = (failure 400 ''Transaction is already voided'', db)"
  by (simp add: voidTransaction_def)

text \<open>
  Claim C4. Voiding a completed transaction that is stored under its id, in a catalog
  keyed by product id, succeeds with status 200; every product's stock goes up by exactly
  the quantities of the transaction's lines for that product, and nothing else in the
  catalog changes (a line whose product is no longer in the catalog has no stock to
  restore); the stored and returned transaction is voided at the time of the call, with
  the same lines, and with the reason appended to its notes as a line \<open>Voided: reason\<close>
  (or \<open>Voided\<close> when no reason is given). A second void is rejected and changes
  nothing, so the stock is restored exactly once.
\<close>

theorem void_restores_stock:
  assumes "getTransactionById db k = Some t" and "status t = ''completed''"
    and "txn_id t = k" and "k \<noteq> []" and "keyed_by_id db"
  shows "resp_success (fst (voidTransaction db k reason fresh now)) \<and>
     resp_status (fst (voidTransaction db k reason fresh now)) = 200 \<and>
     (\<forall>p. products (snd (voidTransaction db k reason fresh now)) p =
        map_option (\<lambda>pr. pr\<lparr>prod_stock := prod_stock pr + line_quantity p (items t)\<rparr>)
          (products db p)) \<and>
     (\<exists>t'. getTransactionById (snd (voidTransaction db k reason fresh now)) k = Some t' \<and>
        resp_data (fst (voidTransaction db k reason fresh now)) = Some t' \<and>
        status t' = ''voided'' \<and> voidedAt t' = Some now \<and> items t' = items t \<and>
        txn_notes t' = txn_notes t @
          (if str_or reason [] \<noteq> [] then CHR 0x0A # ''Voided: '' @ str_or reason []
           else CHR 0x0A # ''Voided'')) \<and>
     voidTransaction (snd (voidTransaction db k reason fresh now)) k reason' fresh' now' =
       (failure 400 ''Transaction is already voided'',
        snd (voidTransaction db k reason fresh now))"
proof -
  let ?t1 = "(fromObject t fresh now)\<lparr>status := ''voided'', voidedAt := Some now,
           txn_notes := txn_notes t @ void_note reason\<rparr>"
  let ?db2 = "(foldl (\<lambda>d i. adjust_stock d (item_productId i) (item_quantity i)) db (items t))
        \<lparr>transactions := (transactions db)(k \<mapsto> ?t1)\<rparr>"
  have r: "voidTransaction db k reason fresh now = (succeeded 200 ?t1, ?db2)"
    using assms(1-4) by (rule voidTransaction_completed)
  have p: "products ?db2 p =
        map_option (\<lambda>pr. pr\<lparr>prod_stock := prod_stock pr + line_quantity p (items t)\<rparr>)
          (products db p)" for p
    by (simp add: products_adjust_all [OF assms(5)] line_quantity_def)
  have g2: "getTransactionById ?db2 k = Some ?t1"
    by (simp add: getTransactionById_def)
  have again: "voidTransaction ?db2 k reason' fresh' now' =
      (failure 400 ''Transaction is already voided'', ?db2)"
    by (rule voidTransaction_voided [OF g2]) simp
  have t1: "status ?t1 = ''voided'' \<and> voidedAt ?t1 = Some now \<and> items ?t1 = items t \<and>
        txn_notes ?t1 = txn_notes t @
          (if str_or reason [] \<noteq> [] then CHR 0x0A # ''Voided: '' @ str_or reason []
           else CHR 0x0A # ''Voided'')"
    by (simp add: fromObject_fields void_note_def)
  have d: "resp_data (succeeded 200 ?t1) = Some ?t1" "resp_success (succeeded 200 ?t1)"
    "resp_status (succeeded 200 ?t1) = 200"
    by (simp_all add: succeeded_def)
  show ?thesis
    unfolding r fst_conv snd_conv
    using p g2 again t1 d by blast
qed

lemma addPaymentMethod_only_payments:
  "snd (addPaymentMethod m now t) = t\<lparr>paymentMethods := paymentMethods (snd (addPaymentMethod m now t))\<rparr>"
  by (simp add: addPaymentMethod_def)

lemma add_all_only_payments:
  "foldl (\<lambda>t m. snd (addPaymentMethod m now t)) t pms =
     t\<lparr>paymentMethods := paymentMethods (foldl (\<lambda>t m. snd (addPaymentMethod m now t)) t pms)\<rparr>"
proof (induction pms arbitrary: t)
  case Nil
  then show ?case by simp
next
  case (Cons m pms)
  have "foldl (\<lambda>t m. snd (addPaymentMethod m now t)) (snd (addPaymentMethod m now t)) pms =
      (snd (addPaymentMethod m now t))\<lparr>paymentMethods :=
         paymentMethods (foldl (\<lambda>t m. snd (addPaymentMethod m now t)) (snd (addPaymentMethod m now t)) pms)\<rparr>"
    by (rule Cons.IH)
  from same_but_payments_trans [OF this addPaymentMethod_only_payments]
  show ?case by simp
qed

lemma completeTransaction_pending:
  assumes g: "getTransactionById db k = Some t"
    and c: "status t = ''pending''"
    and i: "txn_id t = k" "k \<noteq> []"
    and n: "pms \<noteq> []"
    and ps: "paymentMethods (foldl (\<lambda>t m. snd (addPaymentMethod m now t)) (fromObject t fresh now) pms) = paid"
    and enough: "total t \<le> (\<Sum>m\<leftarrow>paid. pm_amount m)"
  shows "completeTransaction db k pms fresh now =
     (succeeded 200
        ((fromObject t fresh now)\<lparr>paymentMethods := paid, status := ''completed'',
           completedAt := Some now\<rparr>),
      (foldl (\<lambda>d i. adjust_stock d (item_productId i) (- item_quantity i))
         (db\<lparr>transactions := (transactions db)(k \<mapsto> t\<lparr>paymentMethods := paid\<rparr>)\<rparr>) (items t))
        \<lparr>transactions := (transactions db)(k \<mapsto>
           (fromObject t fresh now)\<lparr>paymentMethods := paid, status := ''completed'',
              completedAt := Some now\<rparr>)\<rparr>)"
proof -
  let ?t1 = "foldl (\<lambda>t m. snd (addPaymentMethod m now t)) (fromObject t fresh now) pms"
  have t1: "?t1 = (fromObject t fresh now)\<lparr>paymentMethods := paid\<rparr>"
    using add_all_only_payments [of now "fromObject t fresh now" pms] ps by simp
  have cp: "complete now ((fromObject t fresh now)\<lparr>paymentMethods := paid\<rparr>) =
      (True, (fromObject t fresh now)\<lparr>paymentMethods := paid, status := ''completed'',
           completedAt := Some now\<rparr>)"
    using c enough by (simp add: complete_def totalPaid_sum fromObject_fields)
  have k: "txn_id (fromObject t fresh now) = k"
    using i by (simp add: fromObject_fields)
  show ?thesis
    using g c n i(2)
    by (simp add: completeTransaction_def Let_def t1 cp k saveTransaction_def fromObject_fields)
qed

lemma keyed_shops: "keyed_by_id catalog" "keyed_by_id shop" "keyed_by_id scarce"
  by (auto simp: keyed_by_id_def catalog_def shop_def scarce_def split: if_splits)

lemma sale_more_fields [simp]: "txn_notes sale = []"
  "items sale = [\<lparr>item_productId = ''p1'', item_name = ''Test Product'', priceAtSale = 999 / 100,
                taxRateAtSale = 75 / 10, item_quantity = 3, item_recognitionMethod = ''manual'',
                item_recognitionConfidence = 1\<rparr>]"
  by (simp_all add: sale_def)

lemma shop_fields [simp]: "getTransactionById shop ''t1'' = Some sale" "products shop = products catalog"
  by (simp_all add: getTransactionById_def shop_def)

lemma catalog_p1_stock: "map_option prod_stock (products catalog ''p1'') = Some 10"
  by (simp add: catalog_def)

lemma sold_eq:
  "sold =
     (foldl (\<lambda>d i. adjust_stock d (item_productId i) (- item_quantity i))
         (shop\<lparr>transactions := (transactions shop)(''t1'' \<mapsto> sale\<lparr>paymentMethods :=
            [\<lparr>pm_type = ''cash'', pm_amount = 40, pm_reference = None, pm_timestamp = ''t5''\<rparr>]\<rparr>)\<rparr>)
         (items sale))
        \<lparr>transactions := (transactions shop)(''t1'' \<mapsto>
           (fromObject sale ''1'' ''t5'')\<lparr>paymentMethods :=
              [\<lparr>pm_type = ''cash'', pm_amount = 40, pm_reference = None, pm_timestamp = ''t5''\<rparr>],
              status := ''completed'', completedAt := Some ''t5''\<rparr>)\<rparr>"
  unfolding sold_def
  by (subst completeTransaction_pending [where t = sale and paid =
        "[\<lparr>pm_type = ''cash'', pm_amount = 40, pm_reference = None, pm_timestamp = ''t5''\<rparr>]"])
     (simp_all add: addPaymentMethod_cash fromObject_fields)

lemma keyed_transactions_update: "keyed_by_id (db\<lparr>transactions := ts\<rparr>) = keyed_by_id db"
  by (simp add: keyed_by_id_def)

lemma keyed_adjust_all:
  "keyed_by_id db \<Longrightarrow>
     keyed_by_id (foldl (\<lambda>d i. adjust_stock d (item_productId i) (g i)) db its)"
  by (induction its arbitrary: db) (simp_all add: keyed_adjust_stock)

lemma sold_facts:
  "keyed_by_id sold"
  "map_option prod_stock (products sold ''p1'') = Some 7"
  "getTransactionById sold ''t1'' =
     Some ((fromObject sale ''1'' ''t5'')\<lparr>paymentMethods :=
              [\<lparr>pm_type = ''cash'', pm_amount = 40, pm_reference = None, pm_timestamp = ''t5''\<rparr>],
              status := ''completed'', completedAt := Some ''t5''\<rparr>)"
proof -
  have k: "keyed_by_id (shop\<lparr>transactions := ts\<rparr>)" for ts
    by (simp add: keyed_transactions_update keyed_shops)
  show "keyed_by_id sold"
    unfolding sold_eq keyed_transactions_update by (rule keyed_adjust_all [OF k])
  show "map_option prod_stock (products sold ''p1'') = Some 7"
    unfolding sold_eq using catalog_p1_stock
    by (auto simp: products_adjust_stock [OF k])
  show "getTransactionById sold ''t1'' =
     Some ((fromObject sale ''1'' ''t5'')\<lparr>paymentMethods :=
              [\<lparr>pm_type = ''cash'', pm_amount = 40, pm_reference = None, pm_timestamp = ''t5''\<rparr>],
              status := ''completed'', completedAt := Some ''t5''\<rparr>)"
    unfolding sold_eq by (simp add: getTransactionById_def)
qed

text \<open>
  Scenario E: completing the sale of three pieces took the stock of the product from 10 to
  7; voiding it with the reason refund brings the stock back to 10.
\<close>

theorem void_restores_stock_witness:
  "map_option status (getTransactionById sold ''t1'') = Some ''completed'' \<and>
   map_option txn_id (getTransactionById sold ''t1'') = Some ''t1'' \<and>
   keyed_by_id sold \<and>
   map_option prod_stock (products sold ''p1'') = Some 7 \<and>
   resp_success (fst (voidTransaction sold ''t1'' (Some ''refund'') ''2'' ''t9'')) \<and>
   map_option prod_stock (products (snd (voidTransaction sold ''t1'' (Some ''refund'') ''2'' ''t9'')) ''p1'')
     = Some 10 \<and>
   map_option status
     (getTransactionById (snd (voidTransaction sold ''t1'' (Some ''refund'') ''2'' ''t9'')) ''t1'')
     = Some ''voided'' \<and>
   map_option txn_notes
     (getTransactionById (snd (voidTransaction sold ''t1'' (Some ''refund'') ''2'' ''t9'')) ''t1'')
     = Some (CHR 0x0A # ''Voided: refund'')"
proof -
  let ?t = "(fromObject sale ''1'' ''t5'')\<lparr>paymentMethods :=
              [\<lparr>pm_type = ''cash'', pm_amount = 40, pm_reference = None, pm_timestamp = ''t5''\<rparr>],
              status := ''completed'', completedAt := Some ''t5''\<rparr>"
  have g: "getTransactionById sold ''t1'' = Some ?t" by (rule sold_facts(3))
  have c: "status ?t = ''completed''" by simp
  have i: "txn_id ?t = ''t1''" by (simp add: fromObject_fields)
  have n: "''t1'' \<noteq> []" by simp
  have f: "items ?t = items sale" "txn_notes ?t = []" by (simp_all add: fromObject_fields)
  note V = void_restores_stock [OF g c i n sold_facts(1), of "Some ''refund''" "''2''" "''t9''"]
  from V have s: "resp_success (fst (voidTransaction sold ''t1'' (Some ''refund'') ''2'' ''t9''))"
    by blast
  from V have "products (snd (voidTransaction sold ''t1'' (Some ''refund'') ''2'' ''t9'')) ''p1'' =
        map_option (\<lambda>pr. pr\<lparr>prod_stock := prod_stock pr + line_quantity ''p1'' (items ?t)\<rparr>)
          (products sold ''p1'')"
    by blast
  then have p: "map_option prod_stock
      (products (snd (voidTransaction sold ''t1'' (Some ''refund'') ''2'' ''t9'')) ''p1'') = Some 10"
    using sold_facts(2) by (auto simp: f line_quantity_def)
  from V obtain t' where
    t': "getTransactionById (snd (voidTransaction sold ''t1'' (Some ''refund'') ''2'' ''t9'')) ''t1'' = Some t'"
      "status t' = ''voided''"
      "txn_notes t' = txn_notes ?t @
          (if str_or (Some ''refund'') [] \<noteq> [] then CHR 0x0A # ''Voided: '' @ str_or (Some ''refund'') []
           else CHR 0x0A # ''Voided'')"
    by blast
  from t'(3) have "txn_notes t' = CHR 0x0A # ''Voided: refund''"
    by (simp add: f str_or_def)
  with g c i s p t'(1,2) sold_facts(1,2) show ?thesis by simp
qed

lemma scarce_fields [simp]: "getTransactionById scarce ''t2'' = Some two_crates"
  "products scarce ''p2'' = Some \<lparr>prod_id = ''p2'', prod_name = ''Crate'', prod_price = 10,
                               prod_taxRate = 0, prod_stock = 1\<rparr>"
  by (simp_all add: getTransactionById_def scarce_def)

lemma two_crates_fields [simp]:
  "status two_crates = ''pending''" "txn_id two_crates = ''t2''" "total two_crates = 20"
  "paymentMethods two_crates = []"
  "items two_crates = [\<lparr>item_productId = ''p2'', item_name = ''Crate'', priceAtSale = 10,
                taxRateAtSale = 0, item_quantity = 2, item_recognitionMethod = ''manual'',
                item_recognitionConfidence = 1\<rparr>]"
  by (simp_all add: two_crates_def)

text \<open>
  Claim C5 on the code. One crate is in stock and the pending sale, paid in full, has a
  line of two crates. \<open>completeTransaction\<close> answers with success and status 200, the
  stored transaction is completed, and the stock of the crate is -1: the decrement is not
  guarded and never fails.
\<close>

theorem complete_ignores_stock:
  "map_option prod_stock (getProductById scarce ''p2'') = Some 1 \<and>
   map_option (map item_quantity \<circ> items) (getTransactionById scarce ''t2'') = Some [2] \<and>
   resp_success (fst (completeTransaction scarce ''t2'' [cash 20] ''1'' ''t5'')) \<and>
   resp_status (fst (completeTransaction scarce ''t2'' [cash 20] ''1'' ''t5'')) = 200 \<and>
   map_option status
     (getTransactionById (snd (completeTransaction scarce ''t2'' [cash 20] ''1'' ''t5'')) ''t2'')
     = Some ''completed'' \<and>
   map_option prod_stock
     (getProductById (snd (completeTransaction scarce ''t2'' [cash 20] ''1'' ''t5'')) ''p2'')
     = Some (- 1)"
proof -
  have k: "keyed_by_id (scarce\<lparr>transactions := ts\<rparr>)" for ts
    by (simp add: keyed_transactions_update keyed_shops)
  have r: "completeTransaction scarce ''t2'' [cash 20] ''1'' ''t5'' =
     (succeeded 200
        ((fromObject two_crates ''1'' ''t5'')\<lparr>paymentMethods :=
            [\<lparr>pm_type = ''cash'', pm_amount = 20, pm_reference = None, pm_timestamp = ''t5''\<rparr>],
            status := ''completed'', completedAt := Some ''t5''\<rparr>),
      (foldl (\<lambda>d i. adjust_stock d (item_productId i) (- item_quantity i))
         (scarce\<lparr>transactions := (transactions scarce)(''t2'' \<mapsto> two_crates\<lparr>paymentMethods :=
            [\<lparr>pm_type = ''cash'', pm_amount = 20, pm_reference = None, pm_timestamp = ''t5''\<rparr>]\<rparr>)\<rparr>)
         (items two_crates))
        \<lparr>transactions := (transactions scarce)(''t2'' \<mapsto>
           (fromObject two_crates ''1'' ''t5'')\<lparr>paymentMethods :=
              [\<lparr>pm_type = ''cash'', pm_amount = 20, pm_reference = None, pm_timestamp = ''t5''\<rparr>],
              status := ''completed'', completedAt := Some ''t5''\<rparr>)\<rparr>)"
    by (rule completeTransaction_pending [where t = two_crates])
      (simp_all add: addPaymentMethod_cash fromObject_fields)
  have a: "map_option prod_stock (getProductById scarce ''p2'') = Some 1"
    by (simp add: getProductById_def)
  have b: "map_option (map item_quantity \<circ> items) (getTransactionById scarce ''t2'') = Some [2]"
    by simp
  have c: "getTransactionById
      ((foldl (\<lambda>d i. adjust_stock d (item_productId i) (- item_quantity i))
         (scarce\<lparr>transactions := (transactions scarce)(''t2'' \<mapsto> two_crates\<lparr>paymentMethods :=
            [\<lparr>pm_type = ''cash'', pm_amount = 20, pm_reference = None, pm_timestamp = ''t5''\<rparr>]\<rparr>)\<rparr>)
         (items two_crates))
        \<lparr>transactions := (transactions scarce)(''t2'' \<mapsto> x)\<rparr>) ''t2'' = Some x" for x
    by (simp add: getTransactionById_def)
  have d: "map_option prod_stock (getProductById
      ((foldl (\<lambda>d i. adjust_stock d (item_productId i) (- item_quantity i))
         (scarce\<lparr>transactions := ts\<rparr>) (items two_crates))
        \<lparr>transactions := ts'\<rparr>) ''p2'') = Some (- 1)" for ts ts'
    by (simp add: getProductById_def products_adjust_stock [OF k])
  show ?thesis
    unfolding r fst_conv snd_conv c d
    using a b by (simp add: succeeded_def)
qed

text \<open>
  Completion and voiding undo each other on the catalog: when a pending transaction is
  completed and then voided, every product is as it was before the completion.
\<close>

lemma completeTransaction_success_paid:
  assumes g: "getTransactionById db k = Some t"
    and c: "status t = ''pending''"
    and s: "resp_success (fst (completeTransaction db k pms fresh now))"
  shows "pms \<noteq> [] \<and>
     total t \<le> (\<Sum>m\<leftarrow>paymentMethods
        (foldl (\<lambda>t m. snd (addPaymentMethod m now t)) (fromObject t fresh now) pms). pm_amount m)"
proof -
  let ?t1 = "foldl (\<lambda>t m. snd (addPaymentMethod m now t)) (fromObject t fresh now) pms"
  have t1: "?t1 = (fromObject t fresh now)\<lparr>paymentMethods := paymentMethods ?t1\<rparr>"
    by (rule add_all_only_payments)
  have n: "pms \<noteq> []"
  proof
    assume "pms = []"
    with g c have "completeTransaction db k pms fresh now =
        (failure 400 ''Payment methods are required'', db)"
      by (simp add: completeTransaction_def)
    with s show False by (simp add: failure_def)
  qed
  have "total t \<le> (\<Sum>m\<leftarrow>paymentMethods ?t1. pm_amount m)"
  proof (rule ccontr)
    assume "\<not> total t \<le> (\<Sum>m\<leftarrow>paymentMethods ?t1. pm_amount m)"
    then have "totalPaid ?t1 < total ?t1"
      by (subst (2) t1) (simp add: totalPaid_sum fromObject_fields)
    then have "complete now ?t1 = (False, ?t1)"
      by (simp add: complete_def)
    with g c n have "\<not> resp_success (fst (completeTransaction db k pms fresh now))"
      by (simp add: completeTransaction_def Let_def failure_def)
    with s show False by simp
  qed
  with n show ?thesis by simp
qed

lemma sum_list_neg_lines:
  "(\<Sum>i\<leftarrow>its. if item_productId i = p then - item_quantity i else (0::num)) =
     - line_quantity p its"
  by (induction its) (simp_all add: line_quantity_def)

lemma complete_then_void_restores_products:
  assumes g: "getTransactionById db k = Some t"
    and c: "status t = ''pending''"
    and i: "txn_id t = k" "k \<noteq> []"
    and kd: "keyed_by_id db"
    and s: "resp_success (fst (completeTransaction db k pms fresh now))"
  shows "products (snd (voidTransaction (snd (completeTransaction db k pms fresh now)) k
            reason fresh' now')) = products db"
proof -
  let ?paid = "paymentMethods
        (foldl (\<lambda>t m. snd (addPaymentMethod m now t)) (fromObject t fresh now) pms)"
  let ?t2 = "(fromObject t fresh now)\<lparr>paymentMethods := ?paid, status := ''completed'',
           completedAt := Some now\<rparr>"
  let ?db1 = "db\<lparr>transactions := (transactions db)(k \<mapsto> t\<lparr>paymentMethods := ?paid\<rparr>)\<rparr>"
  let ?db3 = "(foldl (\<lambda>d i. adjust_stock d (item_productId i) (- item_quantity i)) ?db1 (items t))
        \<lparr>transactions := (transactions db)(k \<mapsto> ?t2)\<rparr>"
  from completeTransaction_success_paid [OF g c s]
  have n: "pms \<noteq> []" and e: "total t \<le> (\<Sum>m\<leftarrow>?paid. pm_amount m)" by simp_all
  have r: "completeTransaction db k pms fresh now = (succeeded 200 ?t2, ?db3)"
    by (rule completeTransaction_pending [OF g c i n refl e])
  have k1: "keyed_by_id ?db1" using kd by (simp add: keyed_transactions_update)
  have k3: "keyed_by_id ?db3"
    unfolding keyed_transactions_update by (rule keyed_adjust_all [OF k1])
  have p3: "products ?db3 p =
      map_option (\<lambda>pr. pr\<lparr>prod_stock := prod_stock pr - line_quantity p (items t)\<rparr>)
        (products db p)" for p
    by (simp add: products_adjust_all [OF k1] sum_list_neg_lines)
  have g3: "getTransactionById ?db3 k = Some ?t2" by (simp add: getTransactionById_def)
  have c3: "status ?t2 = ''completed''" by simp
  have i3: "txn_id ?t2 = k" using i by (simp add: fromObject_fields)
  have it: "items ?t2 = items t" by (simp add: fromObject_fields)
  have v: "voidTransaction ?db3 k reason fresh' now' =
     (succeeded 200
        ((fromObject ?t2 fresh' now')\<lparr>status := ''voided'', voidedAt := Some now',
           txn_notes := txn_notes ?t2 @ void_note reason\<rparr>),
      (foldl (\<lambda>d i. adjust_stock d (item_productId i) (item_quantity i)) ?db3 (items ?t2))
        \<lparr>transactions := (transactions ?db3)(k \<mapsto>
           (fromObject ?t2 fresh' now')\<lparr>status := ''voided'', voidedAt := Some now',
              txn_notes := txn_notes ?t2 @ void_note reason\<rparr>)\<rparr>)"
    by (rule voidTransaction_completed [OF g3 c3 i3 i(2)])
  show ?thesis
  proof (rule ext)
    fix p
    have "products (snd (voidTransaction ?db3 k reason fresh' now')) p =
        map_option (\<lambda>pr. pr\<lparr>prod_stock := prod_stock pr + line_quantity p (items t)\<rparr>)
          (products ?db3 p)"
      unfolding v snd_conv it
      by (simp add: products_adjust_all [OF k3] line_quantity_def)
    also have "\<dots> = products db p"
      unfolding p3 by (simp add: option.map_comp o_def option.map_ident)
    finally show "products (snd (voidTransaction (snd (completeTransaction db k pms fresh now)) k
            reason fresh' now')) p = products db p"
      unfolding r snd_conv .
  qed
qed

section \<open>The permission gate of the dispatcher\<close>

lemma split_nosep: "c \<notin> set s \<Longrightarrow> split c s = [s]"
  by (induction s) auto

lemma split_sep: "c \<notin> set s \<Longrightarrow> split c (s @ c # r) = s # split c r"
  by (induction s) auto

lemma endpoints_eq:
  "registerEndpoints h =
     map (\<lambda>(path, method_name, perms). (path, \<lparr>handler = h method_name, ep_permissions = perms\<rparr>))
       routes"
  by (simp add: registerEndpoints_def routes_def registerEndpoint_def)

lemma void_key_not_complete: "tid @ ''/void'' \<noteq> '':id/complete''"
proof
  assume "tid @ ''/void'' = '':id/complete''"
  then have "last (tid @ ''/void'') = last '':id/complete''" by simp
  then show False by simp
qed

lemma find_void:
  assumes "CHR ''/'' \<notin> set tid"
  shows "\<exists>ps. findEndpoint (registerEndpoints h) ''POST''
            (Some (''/api/transactions/'' @ tid @ ''/void'')) params =
          Found \<lparr>handler = h ''voidTransaction'', ep_permissions = [''transactions:void'']\<rparr> ps"
  unfolding findEndpoint_def endpoints_eq routes_def
  by (simp add: void_key_not_complete split_sep [OF assms] matchPathPattern_def)

lemma split_request:
  "CHR '' '' \<notin> set p \<Longrightarrow> split CHR '' '' (''POST '' @ p) = [''POST'', p]"
  by (simp add: split_nosep)

lemma handleRequest_found:
  assumes "part_at (split CHR '' '' path) 0 = Some method"
    and "findEndpoint eps method (part_at (split CHR '' '' path) 1) params = Found ep ps"
  shows "handleRequest eps a now path params data =
     (if ep_permissions ep \<noteq> [] \<and> \<not> isAuthenticated a now
      then failure 401 ''Authentication required''
      else if ep_permissions ep \<noteq> [] \<and> \<not> list_all (hasPermission a now) (ep_permissions ep)
      then failure 403 ''Permission denied''
      else (case handler ep ps data of
              None \<Rightarrow> failure 500 ''Internal server error''
            | Some r \<Rightarrow> r))"
  using assms by (simp add: handleRequest_def Let_def)

lemma cashier_void_forbidden:
  assumes "CHR ''/'' \<notin> set tid" and "CHR '' '' \<notin> set tid"
    and u: "getCurrentUser a now = Some u" "permissions u = getDefaultPermissions ''cashier''"
  shows "handleRequest (registerEndpoints h) a now
           (''POST /api/transactions/'' @ tid @ ''/void'') params data =
         failure 403 ''Permission denied''"
proof -
  let ?p = "''/api/transactions/'' @ tid @ ''/void''"
  obtain ps where f: "findEndpoint (registerEndpoints h) ''POST'' (Some ?p) params =
          Found \<lparr>handler = h ''voidTransaction'', ep_permissions = [''transactions:void'']\<rparr> ps"
    using find_void [OF assms(1)] by blast
  have au: "isAuthenticated a now" by (simp add: isAuthenticated_def u)
  have np: "\<not> hasPermission a now ''transactions:void''"
    by (simp add: hasPermission_def u getDefaultPermissions_def)
  have "CHR '' '' \<notin> set ?p" using assms(2) by simp
  from split_request [OF this]
  have sp: "split CHR '' '' (''POST /api/transactions/'' @ tid @ ''/void'') = [''POST'', ?p]"
    by simp
  have p0: "part_at (split CHR '' '' (''POST /api/transactions/'' @ tid @ ''/void'')) 0
      = Some ''POST''"
    unfolding sp by simp
  have "part_at [''POST'', ?p] 1 = Some ?p" by simp
  with f have p1: "findEndpoint (registerEndpoints h) ''POST''
      (part_at (split CHR '' '' (''POST /api/transactions/'' @ tid @ ''/void'')) 1) params =
          Found \<lparr>handler = h ''voidTransaction'', ep_permissions = [''transactions:void'']\<rparr> ps"
    unfolding sp by (simp only:)
  show ?thesis
    unfolding handleRequest_found [OF p0 p1]
    by (simp add: au np)
qed

text \<open>
  Claim C9. For a request whose route is matched: if the route lists permissions and there
  is no authenticated session, the answer is the envelope with success false and status
  401; if there is a session that lacks one of the listed permissions, it is the envelope
  with status 403 (all listed permissions are required); if the route lists none, or the
  session holds all of them, the handler is called, so a route without permissions passes
  both checks. In particular a session whose user has the cashier's default permissions
  gets 403 on the void route of any transaction id (the route is registered as
  \<open>POST /api/transactions/:id/void\<close>).
\<close>

theorem permission_gate:
  "(part_at (split CHR '' '' path) 0 = Some method \<and>
    findEndpoint eps method (part_at (split CHR '' '' path) 1) params = Found ep ps \<longrightarrow>
      (ep_permissions ep \<noteq> [] \<and> \<not> isAuthenticated a now \<longrightarrow>
         handleRequest eps a now path params data = failure 401 ''Authentication required'') \<and>
      (ep_permissions ep \<noteq> [] \<and> isAuthenticated a now \<and>
       (\<exists>p\<in>set (ep_permissions ep). \<not> hasPermission a now p) \<longrightarrow>
         handleRequest eps a now path params data = failure 403 ''Permission denied'') \<and>
      (ep_permissions ep = [] \<or>
       isAuthenticated a now \<and> (\<forall>p\<in>set (ep_permissions ep). hasPermission a now p) \<longrightarrow>
         handleRequest eps a now path params data =
           (case handler ep ps data of
              None \<Rightarrow> failure 500 ''Internal server error''
            | Some r \<Rightarrow> r))) \<and>
   (CHR ''/'' \<notin> set tid \<and> CHR '' '' \<notin> set tid \<and> getCurrentUser a' now' = Some u \<and>
    permissions u = getDefaultPermissions ''cashier'' \<longrightarrow>
      handleRequest (registerEndpoints h) a' now'
        (''POST /api/transactions/'' @ tid @ ''/void'') params' data' =
      failure 403 ''Permission denied'')"
proof (intro conjI impI)
  assume "CHR ''/'' \<notin> set tid \<and> CHR '' '' \<notin> set tid \<and> getCurrentUser a' now' = Some u \<and>
    permissions u = getDefaultPermissions ''cashier''"
  then show "handleRequest (registerEndpoints h) a' now'
        (''POST /api/transactions/'' @ tid @ ''/void'') params' data' =
      failure 403 ''Permission denied''"
    by (elim conjE) (rule cashier_void_forbidden)
next
  assume f: "part_at (split CHR '' '' path) 0 = Some method \<and>
    findEndpoint eps method (part_at (split CHR '' '' path) 1) params = Found ep ps"
  then have f0: "part_at (split CHR '' '' path) 0 = Some method"
    and f1: "findEndpoint eps method (part_at (split CHR '' '' path) 1) params = Found ep ps"
    by blast+
  have r: "handleRequest eps a now path params data =
     (if ep_permissions ep \<noteq> [] \<and> \<not> isAuthenticated a now
      then failure 401 ''Authentication required''
      else if ep_permissions ep \<noteq> [] \<and> \<not> list_all (hasPermission a now) (ep_permissions ep)
      then failure 403 ''Permission denied''
      else (case handler ep ps data of
              None \<Rightarrow> failure 500 ''Internal server error''
            | Some r \<Rightarrow> r))"
    by (rule handleRequest_found [OF f0 f1])
  {
    assume "ep_permissions ep \<noteq> [] \<and> \<not> isAuthenticated a now"
    then show "handleRequest eps a now path params data = failure 401 ''Authentication required''"
      unfolding r by simp
  }
  {
    assume "ep_permissions ep \<noteq> [] \<and> isAuthenticated a now \<and>
       (\<exists>p\<in>set (ep_permissions ep). \<not> hasPermission a now p)"
    then show "handleRequest eps a now path params data = failure 403 ''Permission denied''"
      unfolding r by (auto simp: list_all_iff)
  }
  {
    assume "ep_permissions ep = [] \<or>
       isAuthenticated a now \<and> (\<forall>p\<in>set (ep_permissions ep). hasPermission a now p)"
    then show "handleRequest eps a now path params data =
           (case handler ep ps data of
              None \<Rightarrow> failure 500 ''Internal server error''
            | Some r \<Rightarrow> r)"
      unfolding r by (auto simp: list_all_iff)
  }
qed

lemma cashier_user:
  "getCurrentUser cashier_session 1000 = Some (User ''user_1'' ''carol'' (Some ''cashier'') None)"
  "permissions (User ''user_1'' ''carol'' (Some ''cashier'') None) = getDefaultPermissions ''cashier''"
  by (simp_all add: getCurrentUser_def cashier_session_def str_or_null_def User_def str_or_def)

lemma no_session_unauthenticated: "\<not> isAuthenticated no_session now"
  by (simp add: isAuthenticated_def getCurrentUser_def no_session_def)

lemma find_products:
  "findEndpoint (registerEndpoints h) ''GET'' (Some ''/api/products'') [] =
     Found \<lparr>handler = h ''getProducts'', ep_permissions = [''products:read'']\<rparr> []"
  by (simp add: findEndpoint_def endpoints_eq routes_def)

lemma find_login:
  "findEndpoint (registerEndpoints h) ''POST'' (Some ''/api/auth/login'') [] =
     Found \<lparr>handler = h ''login'', ep_permissions = []\<rparr> []"
  by (simp add: findEndpoint_def endpoints_eq routes_def)

lemma split_get_products:
  "split CHR '' '' ''GET /api/products'' = [''GET'', ''/api/products'']"
  "split CHR '' '' ''POST /api/auth/login'' = [''POST'', ''/api/auth/login'']"
  by simp_all

lemma cashier_permissions:
  "isAuthenticated cashier_session 1000"
  "hasPermission cashier_session 1000 ''products:read''"
  "\<not> hasPermission cashier_session 1000 ''products:create''"
  by (simp_all add: isAuthenticated_def hasPermission_def cashier_user getDefaultPermissions_def)

lemma find_create_product:
  "findEndpoint (registerEndpoints h) ''POST'' (Some ''/api/products'') [] =
     Found \<lparr>handler = h ''createProduct'', ep_permissions = [''products:create'']\<rparr> []"
  by (simp add: findEndpoint_def endpoints_eq routes_def)

lemma split_create_product:
  "split CHR '' '' ''POST /api/products'' = [''POST'', ''/api/products'']"
  by simp

text \<open>
  Without a session the product list answers 401 and the login route reaches its handler.
  The cashier reads the product list, but gets 403 on creating a product and on the void
  request for transaction t1.
\<close>

theorem permission_gate_witness:
  "handleRequest (registerEndpoints echo) no_session 1000 ''GET /api/products'' [] [] =
     failure 401 ''Authentication required'' \<and>
   handleRequest (registerEndpoints echo) no_session 1000 ''POST /api/auth/login'' [] [] =
     succeeded 200 ''login'' \<and>
   handleRequest (registerEndpoints echo) cashier_session 1000 ''GET /api/products'' [] [] =
     succeeded 200 ''getProducts'' \<and>
   handleRequest (registerEndpoints echo) cashier_session 1000 ''POST /api/products'' [] [] =
     failure 403 ''Permission denied'' \<and>
   handleRequest (registerEndpoints echo) cashier_session 1000
     ''POST /api/transactions/t1/void'' [] [] = failure 403 ''Permission denied''"
proof -
  have a0: "part_at (split CHR '' '' ''GET /api/products'') 0 = Some ''GET''"
    and a1: "findEndpoint (registerEndpoints echo) ''GET''
        (part_at (split CHR '' '' ''GET /api/products'') 1) [] =
      Found \<lparr>handler = echo ''getProducts'', ep_permissions = [''products:read'']\<rparr> []"
    unfolding split_get_products by (simp_all add: find_products)
  have b0: "part_at (split CHR '' '' ''POST /api/auth/login'') 0 = Some ''POST''"
    and b1: "findEndpoint (registerEndpoints echo) ''POST''
        (part_at (split CHR '' '' ''POST /api/auth/login'') 1) [] =
      Found \<lparr>handler = echo ''login'', ep_permissions = []\<rparr> []"
    unfolding split_get_products by (simp_all add: find_login)
  have d0: "part_at (split CHR '' '' ''POST /api/products'') 0 = Some ''POST''"
    and d1: "findEndpoint (registerEndpoints echo) ''POST''
        (part_at (split CHR '' '' ''POST /api/products'') 1) [] =
      Found \<lparr>handler = echo ''createProduct'', ep_permissions = [''products:create'']\<rparr> []"
    unfolding split_create_product by (simp_all add: find_create_product)
  note general = permission_gate [THEN conjunct1, THEN mp]
  note cashier = permission_gate [THEN conjunct2, THEN mp]
  have 1: "handleRequest (registerEndpoints echo) no_session 1000 ''GET /api/products'' [] [] =
     failure 401 ''Authentication required''"
    using general [OF conjI [OF a0 a1], THEN conjunct1, of no_session 1000 "[]"]
      no_session_unauthenticated [of 1000]
    by simp
  have 2: "handleRequest (registerEndpoints echo) no_session 1000 ''POST /api/auth/login'' [] [] =
     succeeded 200 ''login''"
    using general [OF conjI [OF b0 b1], THEN conjunct2, THEN conjunct2, of no_session 1000 "[]"]
    by (simp add: echo_def)
  have 3: "handleRequest (registerEndpoints echo) cashier_session 1000 ''GET /api/products'' [] [] =
     succeeded 200 ''getProducts''"
    using general [OF conjI [OF a0 a1], THEN conjunct2, THEN conjunct2, of cashier_session 1000 "[]"]
      cashier_permissions
    by (simp add: echo_def)
  have 4: "handleRequest (registerEndpoints echo) cashier_session 1000 ''POST /api/products'' [] [] =
     failure 403 ''Permission denied''"
    using general [OF conjI [OF d0 d1], THEN conjunct2, THEN conjunct1, of cashier_session 1000 "[]"]
      cashier_permissions
    by simp
  have c: "CHR ''/'' \<notin> set ''t1'' \<and> CHR '' '' \<notin> set ''t1'' \<and>
      getCurrentUser cashier_session 1000 = Some (User ''user_1'' ''carol'' (Some ''cashier'') None) \<and>
      permissions (User ''user_1'' ''carol'' (Some ''cashier'') None) = getDefaultPermissions ''cashier''"
    using cashier_user by simp
  have 5: "handleRequest (registerEndpoints echo) cashier_session 1000
     ''POST /api/transactions/t1/void'' [] [] = failure 403 ''Permission denied''"
    using cashier [OF c, of echo "[]" "[]"] by simp
  from 1 2 3 4 5 show ?thesis by simp
qed

end
